theory Spec2Isabelle
  imports Complex_Main
begin

section \<open>Errors and printed output\<close>

text \<open>
  Every exception class the modelled code raises is a constructor; the argument is the
  message. A function that can raise returns \<open>pyerr + 'a\<close>, with \<open>Inl\<close> the exception.
\<close>

datatype pyerr =
    ValueError string
  | AttributeError string
  | TypeError string
  | NotImplementedError string
  | IndexError string
  | ZeroDivisionError string
  | AssertionError string
  | OverflowError string
  | LinAlgError string

section \<open>Backend selection (DynamicalSystems/utils.py)\<close>

text \<open>
  \<^verbatim>\<open>parse_backend(backend, X)\<close> reads only \<^verbatim>\<open>X.shape[0]\<close> of its second argument, so the
  model takes that number. The message of the \<^verbatim>\<open>ValueError\<close> is the f-string of the source.
\<close>

definition unrecognized_backend_msg :: "string \<Rightarrow> string" where
  "unrecognized_backend_msg backend =
     ''Unrecognized backend '' @ [CHR 0x27] @ backend @ [CHR 0x27] @
     ''. Accepted values are '' @ [CHR 0x27] @ ''auto'' @ [CHR 0x27] @ '', '' @
     [CHR 0x27] @ ''cpu'' @ [CHR 0x27] @ '' or '' @ [CHR 0x27] @ ''keops'' @ [CHR 0x27] @ ''.''"

definition parse_backend :: "string \<Rightarrow> nat \<Rightarrow> pyerr + string" where
  "parse_backend backend shape0 =
     (if backend = ''keops'' then Inr backend
      else if backend = ''cpu'' then Inr backend
      else if backend = ''auto'' then
        (if shape0 < 2000 then Inr ''cpu'' else Inr ''keops'')
      else Inl (ValueError (unrecognized_backend_msg backend)))"

section \<open>Arrays\<close>

text \<open>
  A two-dimensional numpy array is the list of its columns, so \<open>A ! j ! i\<close> is
  \<^verbatim>\<open>A[i, j]\<close>; a one-dimensional array is a list. float64 and complex128 are modelled by
  \<open>real\<close> and \<open>complex\<close>: rounding, infinities and NaN are outside the model. numpy raises
  when the shapes of two operands do not fit; the operations below are used on fitting
  shapes only and truncate otherwise. An array without columns has no recorded number of
  rows: its \<open>shape0\<close> is 0.
\<close>

type_synonym 'a matrix = "'a list list"
type_synonym rmat = "real matrix"
type_synonym cmat = "complex matrix"

definition shape0 :: "'a matrix \<Rightarrow> nat" where
  "shape0 A = (case A of [] \<Rightarrow> 0 | c # _ \<Rightarrow> length c)"

definition shape1 :: "'a matrix \<Rightarrow> nat" where
  "shape1 A = length A"

definition dot :: "'a::comm_ring_1 list \<Rightarrow> 'a list \<Rightarrow> 'a" where
  "dot x y = sum_list (map2 (*) x y)"

definition row :: "'a matrix \<Rightarrow> nat \<Rightarrow> 'a list" where
  "row A i = map (\<lambda>c. c ! i) A"

definition matvec :: "'a::comm_ring_1 matrix \<Rightarrow> 'a list \<Rightarrow> 'a list" where
  \<comment> \<open>\<^verbatim>\<open>A @ x\<close>\<close>
  "matvec A x = map (\<lambda>i. dot (row A i) x) [0..<shape0 A]"

definition vecmat :: "'a::comm_ring_1 list \<Rightarrow> 'a matrix \<Rightarrow> 'a list" where
  \<comment> \<open>\<^verbatim>\<open>x.T @ A\<close>\<close>
  "vecmat x A = map (dot x) A"

definition matmul :: "'a::comm_ring_1 matrix \<Rightarrow> 'a matrix \<Rightarrow> 'a matrix" where
  \<comment> \<open>\<^verbatim>\<open>A @ B\<close>\<close>
  "matmul A B = map (matvec A) B"

definition transpose_m :: "'a matrix \<Rightarrow> 'a matrix" where
  \<comment> \<open>\<^verbatim>\<open>A.T\<close>\<close>
  "transpose_m A = map (row A) [0..<shape0 A]"

definition vadd :: "'a::comm_ring_1 list \<Rightarrow> 'a list \<Rightarrow> 'a list" where
  "vadd x y = map2 (+) x y"

definition vsub :: "'a::comm_ring_1 list \<Rightarrow> 'a list \<Rightarrow> 'a list" where
  "vsub x y = map2 (-) x y"

definition vscale :: "'a::comm_ring_1 \<Rightarrow> 'a list \<Rightarrow> 'a list" where
  "vscale c x = map ((*) c) x"

definition madd :: "'a::comm_ring_1 matrix \<Rightarrow> 'a matrix \<Rightarrow> 'a matrix" where
  \<comment> \<open>\<^verbatim>\<open>A + B\<close>\<close>
  "madd A B = map2 vadd A B"

definition msub :: "'a::comm_ring_1 matrix \<Rightarrow> 'a matrix \<Rightarrow> 'a matrix" where
  \<comment> \<open>\<^verbatim>\<open>A - B\<close>\<close>
  "msub A B = map2 vsub A B"

definition mscale :: "'a::comm_ring_1 \<Rightarrow> 'a matrix \<Rightarrow> 'a matrix" where
  \<comment> \<open>\<^verbatim>\<open>c * A\<close>\<close>
  "mscale c A = map (vscale c) A"

definition unit_vec :: "nat \<Rightarrow> nat \<Rightarrow> 'a::comm_ring_1 list" where
  "unit_vec n j = map (\<lambda>i. if i = j then 1 else 0) [0..<n]"

definition eye :: "nat \<Rightarrow> 'a::comm_ring_1 matrix" where
  \<comment> \<open>\<^verbatim>\<open>np.eye(n)\<close>\<close>
  "eye n = map (unit_vec n) [0..<n]"

definition diag_of :: "'a::comm_ring_1 list \<Rightarrow> 'a matrix" where
  \<comment> \<open>\<^verbatim>\<open>np.diag(d)\<close> of a one-dimensional \<^verbatim>\<open>d\<close>\<close>
  "diag_of d = map (\<lambda>j. vscale (d ! j) (unit_vec (length d) j)) [0..<length d]"

definition diag_entries :: "'a matrix \<Rightarrow> 'a list" where
  \<comment> \<open>\<^verbatim>\<open>np.diag(A)\<close> of a square \<^verbatim>\<open>A\<close>\<close>
  "diag_entries A = map (\<lambda>i. A ! i ! i) [0..<length A]"

definition swap_entries :: "'a list \<Rightarrow> nat \<Rightarrow> nat \<Rightarrow> 'a list" where
  \<comment> \<open>\<^verbatim>\<open>xs[[a, b]] = xs[[b, a]]\<close>: the right-hand side is read before anything is written\<close>
  "swap_entries xs a b = (xs[a := xs ! b])[b := xs ! a]"

definition norm1 :: "rmat \<Rightarrow> pyerr + real" where
  \<comment> \<open>\<^verbatim>\<open>np.linalg.norm(A, ord=1)\<close>: the largest absolute column sum; the maximum over no
      column raises\<close>
  "norm1 A =
     (case A of
        [] \<Rightarrow> Inl (ValueError ''zero-size array to reduction operation maximum which has no identity'')
      | c # cs \<Rightarrow> Inr (Max (set (map (\<lambda>c. sum_list (map abs c)) A))))"

definition take_cols :: "'a matrix \<Rightarrow> nat list \<Rightarrow> 'a matrix" where
  \<comment> \<open>\<^verbatim>\<open>A[:, idx]\<close>\<close>
  "take_cols A idx = map (\<lambda>j. A ! j) idx"








definition py_take :: "int \<Rightarrow> 'a list \<Rightarrow> 'a list" where
  \<comment> \<open>the slice \<^verbatim>\<open>xs[:r]\<close>: a negative \<^verbatim>\<open>r\<close> counts from the end\<close>
  "py_take r xs =
     (if 0 \<le> r then take (nat r) xs else take (length xs - nat (- r)) xs)"

definition argsort :: "real list \<Rightarrow> nat list" where
  \<comment> \<open>\<^verbatim>\<open>np.argsort(keys)\<close>: the indices in ascending order of their keys\<close>
  "argsort keys = sort_key (\<lambda>i. keys ! i) [0..<length keys]"

definition argmax :: "real list \<Rightarrow> nat" where
  \<comment> \<open>\<^verbatim>\<open>np.argmax(xs)\<close>: the first index of a largest entry\<close>
  "argmax xs = (case filter (\<lambda>i. xs ! i = Max (set xs)) [0..<length xs] of
                  [] \<Rightarrow> 0 | i # _ \<Rightarrow> i)"

section \<open>Parameter validation (kooplearn/koopman_estimators/BaseKoopmanEstimator.py)\<close>

record base_estimator =
  be_backend :: string
  be_svd_solver :: string
  be_iterated_power :: int
  be_n_oversamples :: int
  be_rank :: int

definition check_backend_solver_compatibility :: "base_estimator \<Rightarrow> pyerr + unit" where
  "check_backend_solver_compatibility self =
     (if be_backend self \<notin> set [''numpy'', ''keops''] then
        Inl (ValueError ''Invalid backend. Allowed values are 'numpy' and 'keops'.'')
      else if be_svd_solver self \<notin> set [''full'', ''arnoldi'', ''randomized''] then
        Inl (ValueError ''Invalid svd_solver. Allowed values are 'full', 'arnoldi' and 'randomized'.'')
      else if be_svd_solver self = ''randomized'' \<and> be_iterated_power self < 0 then
        Inl (ValueError ''Invalid iterated_power. Must be non-negative.'')
      else if be_svd_solver self = ''randomized'' \<and> be_n_oversamples self < 0 then
        Inl (ValueError ''Invalid n_oversamples. Must be non-negative.'')
      else if be_svd_solver self = ''full'' \<and> be_backend self = ''keops'' then
        Inl (ValueError ''Invalid backend and svd_solver combination. 'keops' backend is not compatible with 'full' svd_solver.'')
      else Inr ())"

section \<open>Koopman estimators (legacy_code/koopman_regression.py)\<close>

subsection \<open>The estimator object\<close>

text \<open>
  The four classes share one record; \<open>variant\<close> is the class of \<^verbatim>\<open>self\<close>. An attribute
  that exists only after some method has assigned it is an \<open>option\<close> field, and reading
  it while it is \<open>None\<close> is Python's \<^verbatim>\<open>AttributeError\<close>. The attributes that
  \<^verbatim>\<open>_init_kernels\<close> assigns come in the order of its assignments: \<open>Copied\<close> after
  \<^verbatim>\<open>self.X, self.Y = X.copy(), Y.copy()\<close>, \<open>Kernels\<close> once the Gram matrices are there.
  \<^verbatim>\<open>self.dtype\<close> is left out (real and complex arrays are one type here), and
  \<^verbatim>\<open>aslinearoperator\<close> is the identity: a linear operator is modelled by its matrix.

  Two fields are not attributes of the Python object: \<open>emitted\<close> collects the warnings
  raised through \<^verbatim>\<open>warnings.warn\<close>, and \<open>eig_calls\<close> counts the calls of \<^verbatim>\<open>eig\<close>.
\<close>

datatype variant =
    KernelRidgeRegression
  | TruncatedKernelRidgeRegression
  | ReducedRankRegression
  | PrincipalComponentRegression


datatype msg = Warning string | RankReduced int nat | ImaginaryParts real

datatype ndarray = Arr1 "complex list" | Arr2 cmat

datatype closure = Refuns real | Lefuns real | GramRefuns real

record kernels =
  self_X :: cmat
  self_Y :: cmat
  self_backend :: string
  self_K_X :: cmat
  self_K_Y :: cmat
  self_K_YX :: cmat

datatype fit_state = Unfitted | Copied cmat cmat | Kernels kernels

record estimator =
  variant :: variant
  self_rank :: int
  self_tikhonov_reg :: "real option"
  self_fit :: fit_state
  self_U :: "cmat option"
  self_V :: "cmat option"
  self_evals :: "complex list option"
  self_levecs :: "cmat option"
  self_revecs :: "cmat option"
  self_modes_to_invert :: "cmat option"
  self_refuns :: "closure option"
  self_lefuns :: "closure option"
  self_modes :: "cmat option"
  emitted :: "msg list"
  eig_calls :: nat

text \<open>
  What the code calls and the sources do not define is a field of \<open>externals\<close>: the
  kernel of the estimator, the routines of scipy and numpy whose results are not determined
  by a formula, and the functions that \<^verbatim>\<open>koopman_regression.py\<close> imports from the
  \<^verbatim>\<open>utils\<close> module of its own package, which is not among the sources:
  \<^verbatim>\<open>parse_backend\<close>, \<^verbatim>\<open>weighted_norm\<close>, \<^verbatim>\<open>_is_real\<close>, \<^verbatim>\<open>KernelSquared\<close> and a
  \<^verbatim>\<open>modified_QR\<close> that takes the keywords \<^verbatim>\<open>pivoting\<close> and \<^verbatim>\<open>numerical_rank\<close> and
  returns a pair. Nothing is assumed of them: \<open>utils_parse_backend\<close> is any function
  that returns a backend or raises, and the others are total functions (an exception raised
  inside a library routine on fitting arguments is outside the model). The operator that
  \<^verbatim>\<open>KernelSquared\<close> builds is modelled by its matrix.
\<close>

record externals =
  kernel :: "cmat \<Rightarrow> cmat option \<Rightarrow> string \<Rightarrow> cmat"
  utils_parse_backend :: "string \<Rightarrow> nat \<Rightarrow> pyerr + string"
  utils_is_real :: "ndarray \<Rightarrow> bool"
  utils_KernelSquared ::
    "(cmat \<Rightarrow> cmat option \<Rightarrow> string \<Rightarrow> cmat) \<Rightarrow> cmat \<Rightarrow> real \<Rightarrow> real \<Rightarrow> string \<Rightarrow> cmat"
  utils_modified_QR :: "cmat \<Rightarrow> cmat \<Rightarrow> cmat \<times> nat list"
  scipy_lsqr :: "cmat \<Rightarrow> cmat \<Rightarrow> cmat"
  scipy_eig :: "cmat \<Rightarrow> cmat option \<Rightarrow> complex list \<times> cmat \<times> cmat"
  scipy_eigvals :: "cmat \<Rightarrow> cmat option \<Rightarrow> complex list"
  scipy_eigs :: "cmat \<Rightarrow> int \<Rightarrow> cmat option \<Rightarrow> complex list \<times> cmat"
  scipy_eigh :: "cmat \<Rightarrow> real list \<times> cmat"
  scipy_eigsh :: "cmat \<Rightarrow> int \<Rightarrow> real list \<times> cmat"
  scipy_lstsq :: "cmat \<Rightarrow> cmat \<Rightarrow> cmat"
  numpy_pinv :: "cmat \<Rightarrow> cmat"
  numpy_power :: "complex \<Rightarrow> real \<Rightarrow> complex"
  weighted_norm :: "cmat \<Rightarrow> cmat \<Rightarrow> real list"

text \<open>
  \<open>new_estimator\<close> is an object of the given class on which only the rank and the
  regularisation are assigned. The four \<^verbatim>\<open>__init__\<close> methods follow: three of them assign
  their arguments and nothing else (\<^verbatim>\<open>KernelRidgeRegression\<close> has no rank and
  \<^verbatim>\<open>PrincipalComponentRegression\<close> no regularisation; no method of these classes reads the
  field), and that of \<^verbatim>\<open>TruncatedKernelRidgeRegression\<close> first asserts
  \<^verbatim>\<open>np.isscalar(tikhonov_reg)\<close>. A regularisation argument is \<^verbatim>\<open>None\<close> or a number, and
  \<^verbatim>\<open>None\<close> is not a scalar.
\<close>

definition new_estimator :: "variant \<Rightarrow> int \<Rightarrow> real option \<Rightarrow> estimator" where
  "new_estimator v r reg =
     \<lparr>variant = v, self_rank = r, self_tikhonov_reg = reg, self_fit = Unfitted,
      self_U = None, self_V = None, self_evals = None, self_levecs = None,
      self_revecs = None, self_modes_to_invert = None, self_refuns = None,
      self_lefuns = None, self_modes = None, emitted = [], eig_calls = 0\<rparr>"

definition KernelRidgeRegression_init :: "real option \<Rightarrow> pyerr + estimator" where
  "KernelRidgeRegression_init tikhonov_reg =
     Inr (new_estimator KernelRidgeRegression 0 tikhonov_reg)"

definition numerical_value_msg :: string where
  "numerical_value_msg = ''Numerical value expected, got None instead.''"

definition TruncatedKernelRidgeRegression_init :: "int \<Rightarrow> real option \<Rightarrow> pyerr + estimator" where
  "TruncatedKernelRidgeRegression_init rank tikhonov_reg =
     (case tikhonov_reg of
        None \<Rightarrow> Inl (AssertionError numerical_value_msg)
      | Some reg \<Rightarrow> Inr (new_estimator TruncatedKernelRidgeRegression rank tikhonov_reg))"

definition ReducedRankRegression_init :: "int \<Rightarrow> real option \<Rightarrow> pyerr + estimator" where
  "ReducedRankRegression_init rank tikhonov_reg =
     Inr (new_estimator ReducedRankRegression rank tikhonov_reg)"

definition PrincipalComponentRegression_init :: "int \<Rightarrow> pyerr + estimator" where
  "PrincipalComponentRegression_init rank =
     Inr (new_estimator PrincipalComponentRegression rank None)"

definition warn :: "msg \<Rightarrow> estimator \<Rightarrow> estimator" where
  "warn m self = self\<lparr>emitted := emitted self @ [m]\<rparr>"

subsection \<open>Fitting\<close>

definition init_kernels ::
  "externals \<Rightarrow> estimator \<Rightarrow> cmat \<Rightarrow> cmat \<Rightarrow> string \<Rightarrow> (pyerr + unit) \<times> estimator" where
  "init_kernels ext self X Y backend =
     (let self = self\<lparr>self_fit :=
            (case self_fit self of
               Kernels k \<Rightarrow> Kernels (k\<lparr>self_X := X, self_Y := Y\<rparr>)
             | _ \<Rightarrow> Copied X Y)\<rparr>
      in case utils_parse_backend ext backend (shape0 X) of
           Inl e \<Rightarrow> (Inl e, self)
         | Inr b \<Rightarrow>
             (Inr (),
              self\<lparr>self_fit := Kernels
                \<lparr>self_X = X, self_Y = Y, self_backend = b,
                 self_K_X = kernel ext X None b,
                 self_K_Y = kernel ext Y None b,
                 self_K_YX = kernel ext Y (Some X) b\<rparr>\<rparr>))"

definition krr_backend_warning :: string where
  "krr_backend_warning =
     ''Keops backend not implemented for KernelRidgeRegression. Use TruncatedKernelRidgeRegression instead. Forcing 'cpu' backend. ''"

definition tkrr_backend_warning :: string where
  "tkrr_backend_warning =
     ''CPU backend not implemented for TruncatedKernelRidgeRegression. Use KernelRidgeRegression instead. Forcing 'keops' backend. ''"

definition KernelRidgeRegression_fit ::
  "externals \<Rightarrow> estimator \<Rightarrow> cmat \<Rightarrow> cmat \<Rightarrow> string \<Rightarrow> (pyerr + unit) \<times> estimator" where
  "KernelRidgeRegression_fit ext self X Y backend =
     (let self = (if backend \<noteq> ''cpu'' then warn (Warning krr_backend_warning) self else self)
      in init_kernels ext self X Y ''cpu'')"

definition TruncatedKernelRidgeRegression_fit ::
  "externals \<Rightarrow> estimator \<Rightarrow> cmat \<Rightarrow> cmat \<Rightarrow> string \<Rightarrow> (pyerr + unit) \<times> estimator" where
  "TruncatedKernelRidgeRegression_fit ext self X Y backend =
     (let self = (if backend \<noteq> ''keops'' then warn (Warning tkrr_backend_warning) self else self)
      in init_kernels ext self X Y ''keops'')"

text \<open>
  In \<^verbatim>\<open>PrincipalComponentRegression.fit\<close> the branch taken when some retained eigenvalue is
  not above \<^verbatim>\<open>2.2e-16\<close> starts with \<^verbatim>\<open>V[:_test]\<close>, a slice whose bound is the boolean
  array \<^verbatim>\<open>_test\<close>. numpy converts a slice bound with \<^verbatim>\<open>__index__\<close>, which an array answers
  only when it is an integer scalar array, so the expression raises \<^verbatim>\<open>TypeError\<close> before
  anything is assigned.
\<close>

definition slice_bound_msg :: string where
  "slice_bound_msg = ''only integer scalar arrays can be converted to a scalar index''"

definition PrincipalComponentRegression_fit ::
  "externals \<Rightarrow> estimator \<Rightarrow> cmat \<Rightarrow> cmat \<Rightarrow> string \<Rightarrow> (pyerr + unit) \<times> estimator" where
  "PrincipalComponentRegression_fit ext self X Y backend =
     (case init_kernels ext self X Y backend of
        (Inl e, self) \<Rightarrow> (Inl e, self)
      | (Inr u, self) \<Rightarrow>
          (case self_fit self of
             Kernels k \<Rightarrow>
               let dim = shape0 (self_K_X k);
                   K = self_K_X k;
                   (S, V) =
                     (if self_backend k = ''keops'' then
                        let (S, V) = scipy_eigsh ext K (self_rank self);
                            sigma_sq = map (\<lambda>x. x ^ 2) S;
                            sort_perm = rev (argsort sigma_sq);
                            sigma_sq = map (\<lambda>i. sigma_sq ! i) sort_perm;
                            V = take_cols V sort_perm;
                            S = map (\<lambda>i. S ! i) sort_perm
                        in (S, V)
                      else
                        let (S, V) = scipy_eigh ext K;
                            sigma_sq = map (\<lambda>x. x ^ 2) S;
                            sort_perm = rev (argsort sigma_sq);
                            sigma_sq = map (\<lambda>i. sigma_sq ! i) sort_perm;
                            S = py_take (self_rank self) (rev S);
                            V = py_take (self_rank self) (rev V)
                        in (S, V));
                   test = map (\<lambda>x. x > 22 / 10 ^ 17) S
               in if list_all (\<lambda>b. b) test then
                    (Inr (),
                     self\<lparr>self_V := Some (mscale (of_real (sqrt (real dim))) V),
                          self_U := Some (mscale (of_real (sqrt (real dim)))
                                      (matmul V (diag_of (map (\<lambda>x. of_real (inverse x)) S))))\<rparr>)
                  else (Inl (TypeError slice_bound_msg), self)
           | _ \<Rightarrow> (Inl (AttributeError ''K_X''), self)))"

text \<open>
  \<^verbatim>\<open>ReducedRankRegression.fit\<close>. Python raises \<^verbatim>\<open>ZeroDivisionError\<close> for \<^verbatim>\<open>dim**(-1)\<close> when
  there is no sample, and numpy raises \<^verbatim>\<open>ValueError\<close> for the maximum of an empty array.
  Without the keyword \<^verbatim>\<open>left\<close>, \<^verbatim>\<open>eig\<close> returns the eigenvalues and the right eigenvectors:
  the first and the third component of \<open>scipy_eig\<close>. \<open>scipy_lsqr\<close> is what the call of
  \<^verbatim>\<open>lsqr\<close> returns, taken as an array.
\<close>

definition zero_power_msg :: string where
  "zero_power_msg = ''0.0 cannot be raised to a negative power''"

definition zero_size_max_msg :: string where
  "zero_size_max_msg = ''zero-size array to reduction operation maximum which has no identity''"

definition projector_warning :: string where
  "projector_warning =
     ''Computed projector is not real or a global complex phase is present. The Kernel matrix is either severely ill conditioned or non-symmetric, discarting imaginary parts.''"

definition col_norms2 :: "cmat \<Rightarrow> real list" where
  \<comment> \<open>\<^verbatim>\<open>np.linalg.norm(V, ord=2, axis=0)\<close>\<close>
  "col_norms2 V = map (\<lambda>c. sqrt (sum_list (map (\<lambda>z. (cmod z)\<^sup>2) c))) V"

definition ReducedRankRegression_fit ::
  "externals \<Rightarrow> estimator \<Rightarrow> cmat \<Rightarrow> cmat \<Rightarrow> string \<Rightarrow> (pyerr + unit) \<times> estimator" where
  "ReducedRankRegression_fit ext self X Y backend =
     (case init_kernels ext self X Y backend of
        (Inl e, self) \<Rightarrow> (Inl e, self)
      | (Inr u, self) \<Rightarrow>
          (case self_fit self of
             Kernels k \<Rightarrow>
               let dim = shape0 (self_K_X k) in
               if dim = 0 then (Inl (ZeroDivisionError zero_power_msg), self)
               else
                 let inv_dim = 1 / real dim in
                 (case self_tikhonov_reg self of
                    Some reg \<Rightarrow>
                      let alpha = reg * real dim;
                          K = mscale (of_real inv_dim) (matmul (self_K_Y k) (self_K_X k));
                          (sigma_sq, U) =
                            (if self_backend k = ''keops'' then
                               let tikhonov = diag_of (map (\<lambda>i. of_real (1 * alpha)) [0..<dim])
                               in scipy_eigs ext K (self_rank self)
                                    (Some (madd (self_K_X k) tikhonov))
                             else
                               let tikhonov = mscale (of_real alpha) (eye dim);
                                   (w, vl, vr) =
                                     scipy_eig ext K (Some (madd (self_K_X k) tikhonov))
                               in (w, vr))
                      in if \<not> utils_is_real ext (Arr1 sigma_sq) \<and> sigma_sq = [] then
                           (Inl (ValueError zero_size_max_msg), self)
                         else
                           let self =
                                 (if \<not> utils_is_real ext (Arr1 sigma_sq) then
                                    warn (ImaginaryParts
                                            (Max (set (map (\<lambda>z. \<bar>Im z\<bar>) sigma_sq)))) self
                                  else self);
                               sigma_sq = map Re sigma_sq;
                               sort_perm = rev (argsort sigma_sq);
                               sigma_sq =
                                 py_take (self_rank self) (map (\<lambda>i. sigma_sq ! i) sort_perm);
                               U = py_take (self_rank self) (take_cols U sort_perm);
                               self =
                                 (if \<not> utils_is_real ext (Arr2 U)
                                  then warn (Warning projector_warning) self else self);
                               U = map (map (\<lambda>z. complex_of_real (Re z))) U;
                               M = utils_KernelSquared ext (kernel ext) (self_X k) inv_dim reg
                                     (self_backend k);
                               nrm_sq = weighted_norm ext U M
                           in if nrm_sq = [] then (Inl (ValueError zero_size_max_msg), self)
                              else
                                let (U, self) =
                                      (if list_ex (\<lambda>x. x < Max (set nrm_sq) * (484 / 10 ^ 34))
                                            nrm_sq then
                                         let (U, perm) = utils_modified_QR ext U M;
                                             U = take_cols U (argsort (map real perm));
                                             self = warn (RankReduced (self_rank self) (shape1 U))
                                                      self
                                         in (U, self\<lparr>self_rank := int (shape1 U)\<rparr>)
                                       else
                                         (matmul U
                                            (diag_of (map (\<lambda>x. of_real (1 / sqrt x)) nrm_sq)),
                                          self));
                                    V = matmul (self_K_X k) U
                                in (Inr (), self\<lparr>self_V := Some V, self_U := Some U\<rparr>)
                  | None \<Rightarrow>
                      let (V, U) =
                            (if self_backend k = ''keops'' then
                               let (sigma_sq, V) = scipy_eigsh ext (self_K_Y k) (self_rank self);
                                   V = matmul V
                                         (diag_of (map (\<lambda>x. of_real (sqrt (real dim) / x))
                                                     (col_norms2 V)));
                                   U = scipy_lsqr ext (self_K_X k) V
                               in (V, U)
                             else
                               let (sigma_sq, V) = scipy_eigh ext (self_K_Y k);
                                   sort_perm = rev (argsort sigma_sq);
                                   sigma_sq =
                                     py_take (self_rank self)
                                       (map (\<lambda>i. sigma_sq ! i) sort_perm);
                                   V = py_take (self_rank self) (take_cols V sort_perm);
                                   V = matmul V
                                         (diag_of (map (\<lambda>x. of_real (sqrt (real dim) / x))
                                                     (col_norms2 V)));
                                   U = scipy_lstsq ext (self_K_X k) V
                               in (V, U))
                      in (Inr (), self\<lparr>self_V := Some V, self_U := Some U\<rparr>))
           | _ \<Rightarrow> (Inl (AttributeError ''K_X''), self)))"

subsection \<open>Spectral decomposition\<close>
















subsection \<open>Forecast\<close>














definition bind_err :: "pyerr + 'a \<Rightarrow> ('a \<Rightarrow> pyerr + 'b) \<Rightarrow> pyerr + 'b" where
  "bind_err m f = (case m of Inl e \<Rightarrow> Inl e | Inr a \<Rightarrow> f a)"




subsection \<open>Modes\<close>







section \<open>Gram-Schmidt orthogonalisation (DynamicalSystems/utils.py)\<close>

text \<open>
  What \<^verbatim>\<open>modified_QR\<close> and \<^verbatim>\<open>rSVD\<close> print is returned with their results.
\<close>

datatype printed =
    OrthogonalityError real
  | NumericalRank int
  | ActualRankSmaller nat
  | PrintedValues "real list"
  | GEPError real

text \<open>
  The state of the loop of \<^verbatim>\<open>modified_QR\<close>: the arrays \<^verbatim>\<open>Q\<close>, \<^verbatim>\<open>R\<close> and \<^verbatim>\<open>perm_\<close>, which the
  loop updates in place, and \<^verbatim>\<open>rank\<close>.
\<close>

record qr_state =
  qr_Q :: rmat
  qr_R :: rmat
  qr_perm :: "nat list"
  qr_rank :: nat

definition pivot_tol :: real where
  "pivot_tol = 1 / 10 ^ 12"

definition weighted_sq :: "rmat \<Rightarrow> real list \<Rightarrow> real" where
  \<comment> \<open>the diagonal entry of \<^verbatim>\<open>Q.T @ M @ Q\<close> that belongs to the column \<^verbatim>\<open>q\<close> of \<^verbatim>\<open>Q\<close>\<close>
  "weighted_sq M q = dot (vecmat q M) q"

definition residual_norms :: "rmat \<Rightarrow> rmat \<Rightarrow> nat \<Rightarrow> real list" where
  \<comment> \<open>\<^verbatim>\<open>nrm_ = np.diag(Q[:,k:].T @ M @ Q[:, k:])\<close>\<close>
  "residual_norms M Q k = map (weighted_sq M) (drop k Q)"

definition pivot_offset :: "real list \<Rightarrow> nat" where
  \<comment> \<open>\<^verbatim>\<open>idx = np.argmax(nrm_)\<close> followed by \<^verbatim>\<open>idx = 0\<close>\<close>
  "pivot_offset nrm = (let idx = argmax nrm; idx = 0 in idx)"

definition qr_step :: "rmat \<Rightarrow> nat \<Rightarrow> nat \<Rightarrow> qr_state \<Rightarrow> bool \<times> qr_state" where
  \<comment> \<open>the body of the loop at \<^verbatim>\<open>k\<close>; the first component is \<open>False\<close> when it ends in \<^verbatim>\<open>break\<close>\<close>
  "qr_step M vecs k st =
     (let nrm = residual_norms M (qr_Q st) k;
          idx = pivot_offset nrm;
          perm = swap_entries (qr_perm st) k (k + idx);
          Q = swap_entries (qr_Q st) k (k + idx);
          R = swap_entries (qr_R st) k (k + idx);
          Rkk = sqrt \<bar>nrm ! idx\<bar>;
          R = R[k := (R ! k)[k := Rkk]]
      in if \<not> Rkk < pivot_tol then
           let Q = Q[k := map (\<lambda>x. x / Rkk) (Q ! k)] in
           if int k < int vecs - 1 then
             let Mq = matvec M (Q ! k);
                 Rk = map (\<lambda>q. dot Mq q) (drop (Suc k) Q);
                 R = take (Suc k) R @ map2 (\<lambda>c r. c[k := r]) (drop (Suc k) R) Rk;
                 Q = take (Suc k) Q @
                       map2 (\<lambda>q r. vsub q (vscale r (Q ! k))) (drop (Suc k) Q) Rk
             in (True, st\<lparr>qr_Q := Q, qr_R := R, qr_perm := perm\<rparr>)
           else (True, st\<lparr>qr_Q := Q, qr_R := R, qr_perm := perm\<rparr>)
         else (False, st\<lparr>qr_Q := Q, qr_R := R, qr_perm := perm, qr_rank := k\<rparr>))"

function qr_loop :: "rmat \<Rightarrow> nat \<Rightarrow> nat \<Rightarrow> qr_state \<Rightarrow> qr_state" where
  \<comment> \<open>\<^verbatim>\<open>for k in range(k, vecs)\<close>\<close>
  "qr_loop M vecs k st =
     (if k < vecs then
        (case qr_step M vecs k st of
           (True, st') \<Rightarrow> qr_loop M vecs (Suc k) st'
         | (False, st') \<Rightarrow> st')
      else st)"
  by pat_completeness auto
termination
  by (relation "measure (\<lambda>(M, vecs, k, st). vecs - k)") auto

declare qr_loop.simps [simp del]

definition metric_of :: "rmat option \<Rightarrow> string \<Rightarrow> nat \<Rightarrow> rmat" where
  \<comment> \<open>the default of \<^verbatim>\<open>M\<close>: the identity, sparse on the backend \<open>keops\<close>\<close>
  "metric_of M backend n =
     (case M of
        None \<Rightarrow> (if backend = ''keops'' then eye n else eye n)
      | Some M \<Rightarrow> M)"

definition qr_init :: "rmat \<Rightarrow> qr_state" where
  "qr_init A =
     \<lparr>qr_Q = A, qr_R = replicate (shape1 A) (replicate (shape1 A) 0),
      qr_perm = [0..<shape1 A], qr_rank = shape1 A\<rparr>"

definition modified_QR :: "rmat \<Rightarrow> string \<Rightarrow> rmat option \<Rightarrow> pyerr + rmat \<times> printed list" where
  "modified_QR A backend M =
     (case parse_backend backend (shape0 A) of
        Inl e \<Rightarrow> Inl e
      | Inr backend \<Rightarrow>
          let dim = shape0 A;
              vecs = shape1 A;
              M = metric_of M backend dim;
              st = qr_loop M vecs 0 (qr_init A)
          in (case norm1 (msub (qr_R st) (diag_of (diag_entries (qr_R st)))) of
                Inl e \<Rightarrow> Inl e
              | Inr e \<Rightarrow>
                  Inr (take (qr_rank st) (take_cols (qr_Q st) (qr_perm st)),
                       [OrthogonalityError e])))"

text \<open>
  Two notions for stating what the loop does: the pivot of column \<open>k\<close>, which the loop
  stores in \<^verbatim>\<open>R[k, k]\<close>, and the state after \<open>n\<close> passes through the body.
\<close>

definition pivot :: "rmat \<Rightarrow> rmat \<Rightarrow> nat \<Rightarrow> real" where
  "pivot M Q k = sqrt \<bar>weighted_sq M (Q ! k)\<bar>"


section \<open>Randomised singular value decomposition (DynamicalSystems/utils.py)\<close>

text \<open>
  \<^verbatim>\<open>rSVD\<close> calls four routines whose results are not determined by a formula: the random
  draw \<^verbatim>\<open>np.random.randn(n, l)\<close>, \<^verbatim>\<open>scipy.linalg.solve\<close>, which may raise, \<^verbatim>\<open>eigh\<close> and the
  spectral norm \<^verbatim>\<open>np.linalg.norm(Ky, ord=2)\<close>. They are the fields of \<open>linalg\<close>. The
  parameter \<^verbatim>\<open>tol\<close> is not read by the body and is left out. What the function prints is
  returned with its result, in the order of the \<^verbatim>\<open>print\<close> calls.
\<close>

record linalg =
  la_randn :: "nat \<Rightarrow> nat \<Rightarrow> rmat"
  la_solve :: "rmat \<Rightarrow> rmat \<Rightarrow> pyerr + rmat"
  la_eigh :: "rmat \<Rightarrow> real list \<times> rmat"
  la_norm2 :: "rmat \<Rightarrow> real"

definition mdiv :: "rmat \<Rightarrow> real \<Rightarrow> rmat" where
  \<comment> \<open>\<^verbatim>\<open>A / c\<close>\<close>
  "mdiv A c = map (map (\<lambda>x. x / c)) A"

definition py_int :: "real \<Rightarrow> int" where
  \<comment> \<open>\<^verbatim>\<open>int(x)\<close>: truncation towards zero\<close>
  "py_int x = (if 0 \<le> x then \<lfloor>x\<rfloor> else \<lceil>x\<rceil>)"

definition numerical_rank :: "linalg \<Rightarrow> rmat \<Rightarrow> pyerr + int" where
  \<comment> \<open>\<^verbatim>\<open>int(np.trace(Ky)/np.linalg.norm(Ky,ord =2))\<close>: the quotient by zero is NaN or an
      infinity, which \<^verbatim>\<open>int\<close> refuses\<close>
  "numerical_rank la Ky =
     (let tr = sum_list (diag_entries Ky);
          nrm = la_norm2 la Ky
      in if nrm = 0 then
           (if tr = 0 then Inl (ValueError ''cannot convert float NaN to integer'')
            else Inl (OverflowError ''cannot convert float infinity to integer''))
         else Inr (py_int (tr / nrm)))"

definition normalise_columns :: "rmat \<Rightarrow> rmat" where
  \<comment> \<open>\<^verbatim>\<open>Omega @ np.diag(1/np.linalg.norm(Omega,axis=0))\<close>\<close>
  "normalise_columns Omega =
     matmul Omega (diag_of (map (\<lambda>c. 1 / sqrt (sum_list (map (\<lambda>x. x\<^sup>2) c))) Omega))"

definition regularised :: "rmat \<Rightarrow> nat \<Rightarrow> real \<Rightarrow> rmat" where
  \<comment> \<open>\<^verbatim>\<open>Kx+n*reg*np.eye(n)\<close>\<close>
  "regularised Kx n reg = madd Kx (mscale (real n * reg) (eye n))"

definition power_round :: "linalg \<Rightarrow> rmat \<Rightarrow> rmat \<Rightarrow> real \<Rightarrow> nat \<Rightarrow> rmat \<Rightarrow> pyerr + rmat" where
  \<comment> \<open>the body of \<^verbatim>\<open>for j in range(powers)\<close>: the new \<^verbatim>\<open>Omega\<close>\<close>
  "power_round la Kx Ky reg n Omega =
     (let KyO = matmul Ky Omega in
      case la_solve la (regularised Kx n reg) KyO of
        Inl e \<Rightarrow> Inl e
      | Inr z \<Rightarrow> Inr (msub KyO (mscale (real n * reg) z)))"

fun power_rounds ::
  "linalg \<Rightarrow> rmat \<Rightarrow> rmat \<Rightarrow> real \<Rightarrow> nat \<Rightarrow> nat \<Rightarrow> rmat \<Rightarrow> pyerr + rmat" where
  "power_rounds la Kx Ky reg n 0 Omega = Inr Omega"
| "power_rounds la Kx Ky reg n (Suc j) Omega =
     (case power_round la Kx Ky reg n Omega of
        Inl e \<Rightarrow> Inl e
      | Inr Omega' \<Rightarrow> power_rounds la Kx Ky reg n j Omega')"

definition sketch ::
  "linalg \<Rightarrow> rmat \<Rightarrow> rmat \<Rightarrow> real \<Rightarrow> nat \<Rightarrow> int \<Rightarrow> int \<Rightarrow> pyerr + rmat" where
  \<comment> \<open>from the random draw to the \<^verbatim>\<open>Omega\<close> that is passed to \<^verbatim>\<open>modified_QR\<close>; a negative
      number of columns is refused by \<^verbatim>\<open>randn\<close>, and \<^verbatim>\<open>range\<close> of a negative number is empty\<close>
  "sketch la Kx Ky reg n l powers =
     (if l < 0 then Inl (ValueError ''negative dimensions are not allowed'')
      else
        let Omega = la_randn la n (nat l);
            Omega = normalise_columns Omega
        in case power_rounds la Kx Ky reg n (nat powers) Omega of
             Inl e \<Rightarrow> Inl e
           | Inr Omega \<Rightarrow>
               let KyO = matmul Ky Omega
               in la_solve la (regularised Kx n reg) KyO)"

definition rSVD_factors ::
  "linalg \<Rightarrow> rmat \<Rightarrow> rmat \<Rightarrow> real \<Rightarrow> int option \<Rightarrow> int \<Rightarrow> int \<Rightarrow>
   pyerr + (rmat \<times> rmat \<times> real list) \<times> printed list" where
  \<comment> \<open>\<^verbatim>\<open>rSVD\<close> up to \<^verbatim>\<open>V = Kx @ U\<close>\<close>
  "rSVD_factors la Kx Ky reg rank powers offset =
     (let n = shape0 Kx in
      case (case rank of
              None \<Rightarrow>
                (case numerical_rank la Ky of
                   Inl e \<Rightarrow> Inl e
                 | Inr r \<Rightarrow> Inr (r, [NumericalRank r]))
            | Some r \<Rightarrow> Inr (r, [])) of
        Inl e \<Rightarrow> Inl e
      | Inr (rank, out) \<Rightarrow>
          let l = rank + offset in
          (case sketch la Kx Ky reg n l powers of
             Inl e \<Rightarrow> Inl e
           | Inr Omega \<Rightarrow>
               (case modified_QR Omega ''cpu''
                       (Some (madd (mdiv (matmul Kx Kx) (real n)) (mscale reg Kx))) of
                  Inl e \<Rightarrow> Inl e
                | Inr (Q, qr_out) \<Rightarrow>
                    let out = out @ qr_out;
                        out = (if int (shape1 Q) < rank
                               then out @ [ActualRankSmaller (shape1 Q)] else out);
                        C = matmul Kx Q;
                        (svals2, evecs) = la_eigh la (matmul (matmul (transpose_m C) Ky) C);
                        svals2' = map (\<lambda>x. x / real (n\<^sup>2)) (rev svals2);
                        svals2 = py_take rank svals2';
                        evecs = py_take rank (rev evecs);
                        out = out @ [PrintedValues svals2];
                        U = matmul Q evecs;
                        V = matmul Kx U
                    in Inr ((U, V, svals2), out))))"

definition gep_residual ::
  "rmat \<Rightarrow> rmat \<Rightarrow> real \<Rightarrow> nat \<Rightarrow> rmat \<Rightarrow> rmat \<Rightarrow> real list \<Rightarrow> pyerr + real" where
  \<comment> \<open>\<^verbatim>\<open>np.linalg.norm(Ky@V/n - (V+n*reg*U)@np.diag(svals2),ord=1)\<close>\<close>
  "gep_residual Kx Ky reg n U V svals2 =
     norm1 (msub (mdiv (matmul Ky V) (real n))
                 (matmul (madd V (mscale (real n * reg) U)) (diag_of svals2)))"

definition gep_tol :: real where
  "gep_tol = 1 / 10 ^ 6"

definition rSVD ::
  "linalg \<Rightarrow> rmat \<Rightarrow> rmat \<Rightarrow> real \<Rightarrow> int option \<Rightarrow> int \<Rightarrow> int \<Rightarrow>
   pyerr + (rmat \<times> rmat \<times> real list) \<times> printed list" where
  "rSVD la Kx Ky reg rank powers offset =
     (case rSVD_factors la Kx Ky reg rank powers offset of
        Inl e \<Rightarrow> Inl e
      | Inr ((U, V, svals2), out) \<Rightarrow>
          (case gep_residual Kx Ky reg (shape0 Kx) U V svals2 of
             Inl e \<Rightarrow> Inl e
           | Inr error \<Rightarrow>
               Inr ((U, V, svals2),
                    if error > gep_tol then out @ [GEPError error] else out)))"

section \<open>Example data\<close>

text \<open>
  Closed instances need closed arguments. \<open>diagonal_externals\<close> gives the external routines
  by the formulas that hold on diagonal matrices: the eigenvalues of a diagonal pencil are
  the quotients of the diagonals in the order of the diagonal, with the unit vectors as
  eigenvectors (\<^verbatim>\<open>eigh\<close> returns them in ascending order), and a diagonal system is solved
  entry by entry. The kernel is the linear kernel. For the functions of the missing
  \<^verbatim>\<open>utils\<close> module the examples take: as \<^verbatim>\<open>parse_backend\<close> the function of that name in
  \<^verbatim>\<open>DynamicalSystems/utils.py\<close>, as \<^verbatim>\<open>_is_real\<close> the test that every imaginary part is
  zero, as \<^verbatim>\<open>KernelSquared\<close> the matrix \<open>K\<^sup>2 / n + reg K\<close>, and as \<^verbatim>\<open>modified_QR\<close> the
  function that returns its argument with the identity permutation. \<open>fitted2\<close> is the
  ridge estimator after \<^verbatim>\<open>fit\<close> on two samples.
\<close>

definition pencil_diag :: "cmat \<Rightarrow> cmat option \<Rightarrow> complex list" where
  "pencil_diag A B =
     (case B of
        None \<Rightarrow> diag_entries A
      | Some B \<Rightarrow> map2 (\<lambda>a b. a / b) (diag_entries A) (diag_entries B))"

definition linear_kernel :: "cmat \<Rightarrow> cmat option \<Rightarrow> string \<Rightarrow> cmat" where
  "linear_kernel A B backend = matmul A (transpose_m (case B of None \<Rightarrow> A | Some B \<Rightarrow> B))"

definition diag_eigh :: "cmat \<Rightarrow> real list \<times> cmat" where
  "diag_eigh A =
     (let d = map Re (diag_entries A); p = argsort d
      in (map (\<lambda>i. d ! i) p, take_cols (eye (length A)) p))"

definition diagonal_externals :: externals where
  "diagonal_externals =
     \<lparr>kernel = linear_kernel,
      utils_parse_backend = parse_backend,
      utils_is_real =
        (\<lambda>a. case a of Arr1 v \<Rightarrow> list_all (\<lambda>z. Im z = 0) v
                        | Arr2 A \<Rightarrow> list_all (list_all (\<lambda>z. Im z = 0)) A),
      utils_KernelSquared =
        (\<lambda>kern X inv_dim reg b.
           madd (mscale (of_real inv_dim) (matmul (kern X None b) (kern X None b)))
                (mscale (of_real reg) (kern X None b))),
      utils_modified_QR = (\<lambda>U M. (U, [0..<length U])),
      scipy_lsqr = (\<lambda>A B. map (\<lambda>b. map2 (\<lambda>x a. x / a) b (diag_entries A)) B),
      scipy_eig = (\<lambda>A B. (pencil_diag A B, eye (length A), eye (length A))),
      scipy_eigvals = pencil_diag,
      scipy_eigs = (\<lambda>A k B. (pencil_diag A B, eye (length A))),
      scipy_eigh = diag_eigh,
      scipy_eigsh = (\<lambda>A k. diag_eigh A),
      scipy_lstsq = (\<lambda>A B. map (\<lambda>b. map2 (\<lambda>x a. x / a) b (diag_entries A)) B),
      numpy_pinv = (\<lambda>A. diag_of (map inverse (diag_entries A))),
      numpy_power = (\<lambda>z t. z ^ nat \<lfloor>t\<rfloor>),
      weighted_norm = (\<lambda>V M. map (\<lambda>v. cmod (dot v (matvec M v))) V)\<rparr>"

definition X2 :: cmat where
  "X2 = [[1, 0], [0, 1]]"

definition Y2 :: cmat where
  "Y2 = [[1, 0], [0, 2]]"

definition X_deficient :: cmat where
  "X_deficient = [[1, 0], [0, 0]]"



definition A_scaled :: rmat where
  \<comment> \<open>two orthogonal columns, the second one the longer\<close>
  "A_scaled = [[1, 0], [0, 2]]"

text \<open>
  For \<^verbatim>\<open>rSVD\<close>: \<open>diagonal_linalg\<close> solves a diagonal system entry by entry, returns the
  diagonal of a diagonal matrix in ascending order as its eigenvalues, its largest absolute
  entry as its spectral norm, and a fixed matrix as the random draw. \<open>Kx2\<close>, \<open>Ky2\<close> are two
  diagonal Gram matrices on two samples.
\<close>

definition diagonal_linalg :: linalg where
  "diagonal_linalg =
     \<lparr>la_randn = (\<lambda>n l. replicate l (map (\<lambda>i. 3 + real i) [0..<n])),
      la_solve = (\<lambda>A B. Inr (map (\<lambda>b. map2 (\<lambda>x a. x / a) b (diag_entries A)) B)),
      la_eigh = (\<lambda>A. let d = diag_entries A; p = argsort d
                      in (map (\<lambda>i. d ! i) p, take_cols (eye (length A)) p)),
      la_norm2 = (\<lambda>A. Max (set (map abs (diag_entries A))))\<rparr>"

definition Kx2 :: rmat where
  "Kx2 = [[1, 0], [0, 1]]"

definition Ky2 :: rmat where
  "Ky2 = [[20, 0], [0, 15]]"


section \<open>Predicates of the claims\<close>






definition square :: "nat \<Rightarrow> rmat \<Rightarrow> bool" where
  "square n M = (length M = n \<and> list_all (\<lambda>c. length c = n) M)"


section \<open>Properties of the backend selection\<close>

text \<open>
  C6. With mode \<open>auto\<close> the dense backend \<open>cpu\<close> is returned exactly when the number of rows
  is strictly below 2000 and the matrix-free backend \<open>keops\<close> otherwise; the recognised
  modes \<open>cpu\<close> and \<open>keops\<close> are returned unchanged; every other mode string raises a
  \<open>ValueError\<close>.
\<close>

theorem parse_backend_spec:
  "(parse_backend ''auto'' n = Inr ''cpu'' \<longleftrightarrow> n < 2000) \<and>
   (parse_backend ''auto'' n = Inr ''keops'' \<longleftrightarrow> \<not> n < 2000) \<and>
   parse_backend ''cpu'' n = Inr ''cpu'' \<and>
   parse_backend ''keops'' n = Inr ''keops'' \<and>
   (b \<notin> {''auto'', ''cpu'', ''keops''} \<longrightarrow>
      parse_backend b n = Inl (ValueError (unrecognized_backend_msg b)))"
  by (simp add: parse_backend_def)

theorem parse_backend_spec_witness:
  "(parse_backend ''auto'' 1999 = Inr ''cpu'' \<longleftrightarrow> (1999::nat) < 2000) \<and>
   (parse_backend ''auto'' 2000 = Inr ''keops'' \<longleftrightarrow> \<not> (2000::nat) < 2000) \<and>
   ''numpy'' \<notin> {''auto'', ''cpu'', ''keops''} \<and>
   parse_backend ''numpy'' 5 = Inl (ValueError (unrecognized_backend_msg ''numpy''))"
  using parse_backend_spec [of 1999 "''numpy''"] parse_backend_spec [of 2000 "''numpy''"]
    parse_backend_spec [of 5 "''numpy''"]
  by simp

section \<open>Properties of the example data\<close>

lemmas array_defs = matmul_def transpose_m_def matvec_def vecmat_def shape0_def row_def dot_def
  diag_of_def vscale_def unit_vec_def eye_def take_cols_def diag_entries_def mscale_def
  madd_def vadd_def




lemma linear_kernel_X_deficient: "linear_kernel X_deficient None b = [[1, 0], [0, 0]]"
  by (simp add: linear_kernel_def X_deficient_def array_defs)








section \<open>Properties of parameter validation\<close>

lemma check_accepts_iff:
  "check_backend_solver_compatibility self = Inr () \<longleftrightarrow>
     be_backend self \<in> {''numpy'', ''keops''} \<and>
     be_svd_solver self \<in> {''full'', ''arnoldi'', ''randomized''} \<and>
     \<not> (be_svd_solver self = ''randomized'' \<and>
          (be_iterated_power self < 0 \<or> be_n_oversamples self < 0)) \<and>
     \<not> (be_svd_solver self = ''full'' \<and> be_backend self = ''keops'')"
  by (auto simp: check_backend_solver_compatibility_def)

lemma check_raises_ValueError:
  "check_backend_solver_compatibility self \<noteq> Inr () \<Longrightarrow>
     \<exists>m. check_backend_solver_compatibility self = Inl (ValueError m)"
  by (auto simp: check_backend_solver_compatibility_def split: if_splits)

lemma check_ignores_rank:
  "check_backend_solver_compatibility (self\<lparr>be_rank := r\<rparr>) =
   check_backend_solver_compatibility self"
  by (simp add: check_backend_solver_compatibility_def)

lemma init_kernels_accepts:
  assumes "utils_parse_backend ext b (shape0 X) = Inr b'"
  shows "init_kernels ext s X Y b =
           (Inr (),
            s\<lparr>self_fit := Kernels
                \<lparr>self_X = X, self_Y = Y, self_backend = b',
                 self_K_X = kernel ext X None b',
                 self_K_Y = kernel ext Y None b',
                 self_K_YX = kernel ext Y (Some X) b'\<rparr>\<rparr>)"
  using assms by (simp add: init_kernels_def Let_def)

lemma init_kernels_rejects:
  assumes "utils_parse_backend ext b (shape0 X) = Inl e"
  shows "init_kernels ext s X Y b =
           (Inl e,
            s\<lparr>self_fit := (case self_fit s of
                              Kernels k \<Rightarrow> Kernels (k\<lparr>self_X := X, self_Y := Y\<rparr>)
                            | _ \<Rightarrow> Copied X Y)\<rparr>)"
  using assms by (simp add: init_kernels_def Let_def)

lemma krr_fit_forces_cpu:
  assumes "utils_parse_backend ext ''cpu'' (shape0 X) = Inr ''cpu''"
  shows "KernelRidgeRegression_fit ext s X Y b =
           (Inr (),
            s\<lparr>emitted := emitted s @ (if b \<noteq> ''cpu'' then [Warning krr_backend_warning] else []),
              self_fit := Kernels
                \<lparr>self_X = X, self_Y = Y, self_backend = ''cpu'',
                 self_K_X = kernel ext X None ''cpu'',
                 self_K_Y = kernel ext Y None ''cpu'',
                 self_K_YX = kernel ext Y (Some X) ''cpu''\<rparr>\<rparr>)"
  by (simp add: KernelRidgeRegression_fit_def init_kernels_accepts[OF assms] warn_def Let_def)

lemma tkrr_fit_forces_keops:
  assumes "utils_parse_backend ext ''keops'' (shape0 X) = Inr ''keops''"
  shows "TruncatedKernelRidgeRegression_fit ext s X Y b =
           (Inr (),
            s\<lparr>emitted := emitted s @ (if b \<noteq> ''keops'' then [Warning tkrr_backend_warning] else []),
              self_fit := Kernels
                \<lparr>self_X = X, self_Y = Y, self_backend = ''keops'',
                 self_K_X = kernel ext X None ''keops'',
                 self_K_Y = kernel ext Y None ''keops'',
                 self_K_YX = kernel ext Y (Some X) ''keops''\<rparr>\<rparr>)"
  by (simp add: TruncatedKernelRidgeRegression_fit_def init_kernels_accepts[OF assms] warn_def
      Let_def)

lemma pcr_fit_rejects:
  assumes "utils_parse_backend ext b (shape0 X) = Inl e"
  shows "fst (PrincipalComponentRegression_fit ext s X Y b) = Inl e"
    and "self_fit s = Unfitted \<Longrightarrow>
           snd (PrincipalComponentRegression_fit ext s X Y b) = s\<lparr>self_fit := Copied X Y\<rparr>"
  by (simp_all add: PrincipalComponentRegression_fit_def init_kernels_rejects[OF assms])

lemma rrr_fit_rejects:
  assumes "utils_parse_backend ext b (shape0 X) = Inl e"
  shows "fst (ReducedRankRegression_fit ext s X Y b) = Inl e"
    and "self_fit s = Unfitted \<Longrightarrow>
           snd (ReducedRankRegression_fit ext s X Y b) = s\<lparr>self_fit := Copied X Y\<rparr>"
  by (simp_all add: ReducedRankRegression_fit_def init_kernels_rejects[OF assms])

text \<open>
  C9, as the code has it. The validator \<^verbatim>\<open>_check_backend_solver_compatibility\<close> raises
  \<^verbatim>\<open>ValueError\<close> exactly for: a backend other than \<open>numpy\<close> and \<open>keops\<close>, a solver other
  than \<open>full\<close>, \<open>arnoldi\<close> and \<open>randomized\<close>, a negative \<^verbatim>\<open>iterated_power\<close> or
  \<^verbatim>\<open>n_oversamples\<close> when the solver is \<open>randomized\<close>, and the pair \<open>full\<close> with \<open>keops\<close>;
  it does not look at the rank. The \<^verbatim>\<open>fit\<close> of the two ridge estimators rejects no backend
  string: whatever the string, it passes its own backend (\<open>cpu\<close>, \<open>keops\<close>) to
  \<^verbatim>\<open>parse_backend\<close>, and when that is returned it computes the Gram matrices on that backend
  and returns, having warned when the string was another one. The \<^verbatim>\<open>fit\<close> of the two
  low-rank estimators passes the string to \<^verbatim>\<open>parse_backend\<close>, and when that raises, \<^verbatim>\<open>fit\<close>
  raises the same error, after copying the samples and before any Gram matrix is computed.
  A regularisation that is not a scalar is rejected by the constructor of
  \<^verbatim>\<open>TruncatedKernelRidgeRegression\<close>, with an \<^verbatim>\<open>AssertionError\<close>, and not by \<^verbatim>\<open>fit\<close>.
\<close>

theorem validation_as_written:
  "(check_backend_solver_compatibility self = Inr () \<longleftrightarrow>
      be_backend self \<in> {''numpy'', ''keops''} \<and>
      be_svd_solver self \<in> {''full'', ''arnoldi'', ''randomized''} \<and>
      \<not> (be_svd_solver self = ''randomized'' \<and>
           (be_iterated_power self < 0 \<or> be_n_oversamples self < 0)) \<and>
      \<not> (be_svd_solver self = ''full'' \<and> be_backend self = ''keops'')) \<and>
   (check_backend_solver_compatibility self \<noteq> Inr () \<longrightarrow>
      (\<exists>m. check_backend_solver_compatibility self = Inl (ValueError m))) \<and>
   check_backend_solver_compatibility (self\<lparr>be_rank := r\<rparr>) =
     check_backend_solver_compatibility self \<and>
   (utils_parse_backend ext ''cpu'' (shape0 X) = Inr ''cpu'' \<longrightarrow>
      KernelRidgeRegression_fit ext s X Y b =
        (Inr (),
         s\<lparr>emitted := emitted s @ (if b \<noteq> ''cpu'' then [Warning krr_backend_warning] else []),
           self_fit := Kernels
             \<lparr>self_X = X, self_Y = Y, self_backend = ''cpu'',
              self_K_X = kernel ext X None ''cpu'',
              self_K_Y = kernel ext Y None ''cpu'',
              self_K_YX = kernel ext Y (Some X) ''cpu''\<rparr>\<rparr>)) \<and>
   (utils_parse_backend ext ''keops'' (shape0 X) = Inr ''keops'' \<longrightarrow>
      TruncatedKernelRidgeRegression_fit ext s X Y b =
        (Inr (),
         s\<lparr>emitted := emitted s @ (if b \<noteq> ''keops'' then [Warning tkrr_backend_warning] else []),
           self_fit := Kernels
             \<lparr>self_X = X, self_Y = Y, self_backend = ''keops'',
              self_K_X = kernel ext X None ''keops'',
              self_K_Y = kernel ext Y None ''keops'',
              self_K_YX = kernel ext Y (Some X) ''keops''\<rparr>\<rparr>)) \<and>
   (utils_parse_backend ext b (shape0 X) = Inl e \<longrightarrow>
      fst (PrincipalComponentRegression_fit ext s X Y b) = Inl e \<and>
      fst (ReducedRankRegression_fit ext s X Y b) = Inl e \<and>
      (self_fit s = Unfitted \<longrightarrow>
         snd (PrincipalComponentRegression_fit ext s X Y b) = s\<lparr>self_fit := Copied X Y\<rparr> \<and>
         snd (ReducedRankRegression_fit ext s X Y b) = s\<lparr>self_fit := Copied X Y\<rparr>)) \<and>
   TruncatedKernelRidgeRegression_init rank None = Inl (AssertionError numerical_value_msg) \<and>
   TruncatedKernelRidgeRegression_init rank (Some reg) =
     Inr (new_estimator TruncatedKernelRidgeRegression rank (Some reg))"
proof (intro conjI impI)
  show "check_backend_solver_compatibility self = Inr () \<longleftrightarrow>
      be_backend self \<in> {''numpy'', ''keops''} \<and>
      be_svd_solver self \<in> {''full'', ''arnoldi'', ''randomized''} \<and>
      \<not> (be_svd_solver self = ''randomized'' \<and>
           (be_iterated_power self < 0 \<or> be_n_oversamples self < 0)) \<and>
      \<not> (be_svd_solver self = ''full'' \<and> be_backend self = ''keops'')"
    by (rule check_accepts_iff)
  show "check_backend_solver_compatibility (self\<lparr>be_rank := r\<rparr>) =
     check_backend_solver_compatibility self"
    by (rule check_ignores_rank)
  show "TruncatedKernelRidgeRegression_init rank None = Inl (AssertionError numerical_value_msg)"
    by (simp add: TruncatedKernelRidgeRegression_init_def)
  show "TruncatedKernelRidgeRegression_init rank (Some reg) =
     Inr (new_estimator TruncatedKernelRidgeRegression rank (Some reg))"
    by (simp add: TruncatedKernelRidgeRegression_init_def)
next
  assume "check_backend_solver_compatibility self \<noteq> Inr ()"
  then show "\<exists>m. check_backend_solver_compatibility self = Inl (ValueError m)"
    by (rule check_raises_ValueError)
next
  assume p: "utils_parse_backend ext ''cpu'' (shape0 X) = Inr ''cpu''"
  show "KernelRidgeRegression_fit ext s X Y b =
        (Inr (),
         s\<lparr>emitted := emitted s @ (if b \<noteq> ''cpu'' then [Warning krr_backend_warning] else []),
           self_fit := Kernels
             \<lparr>self_X = X, self_Y = Y, self_backend = ''cpu'',
              self_K_X = kernel ext X None ''cpu'',
              self_K_Y = kernel ext Y None ''cpu'',
              self_K_YX = kernel ext Y (Some X) ''cpu''\<rparr>\<rparr>)"
    by (rule krr_fit_forces_cpu[OF p])
next
  assume p: "utils_parse_backend ext ''keops'' (shape0 X) = Inr ''keops''"
  show "TruncatedKernelRidgeRegression_fit ext s X Y b =
        (Inr (),
         s\<lparr>emitted := emitted s @ (if b \<noteq> ''keops'' then [Warning tkrr_backend_warning] else []),
           self_fit := Kernels
             \<lparr>self_X = X, self_Y = Y, self_backend = ''keops'',
              self_K_X = kernel ext X None ''keops'',
              self_K_Y = kernel ext Y None ''keops'',
              self_K_YX = kernel ext Y (Some X) ''keops''\<rparr>\<rparr>)"
    by (rule tkrr_fit_forces_keops[OF p])
next
  assume p: "utils_parse_backend ext b (shape0 X) = Inl e"
  show "fst (PrincipalComponentRegression_fit ext s X Y b) = Inl e"
    by (rule pcr_fit_rejects(1)[OF p])
  show "fst (ReducedRankRegression_fit ext s X Y b) = Inl e"
    by (rule rrr_fit_rejects(1)[OF p])
next
  assume p: "utils_parse_backend ext b (shape0 X) = Inl e" and u: "self_fit s = Unfitted"
  show "snd (PrincipalComponentRegression_fit ext s X Y b) = s\<lparr>self_fit := Copied X Y\<rparr>"
    by (rule pcr_fit_rejects(2)[OF p u])
  show "snd (ReducedRankRegression_fit ext s X Y b) = s\<lparr>self_fit := Copied X Y\<rparr>"
    by (rule rrr_fit_rejects(2)[OF p u])
qed

theorem validation_as_written_witness:
  "(\<exists>m. check_backend_solver_compatibility
          \<lparr>be_backend = ''keops'', be_svd_solver = ''full'', be_iterated_power = 1,
           be_n_oversamples = 5, be_rank = 3\<rparr> = Inl (ValueError m)) \<and>
   fst (KernelRidgeRegression_fit diagonal_externals
         (new_estimator KernelRidgeRegression 0 None) X2 Y2 ''gpu'') = Inr () \<and>
   emitted (snd (KernelRidgeRegression_fit diagonal_externals
         (new_estimator KernelRidgeRegression 0 None) X2 Y2 ''gpu'')) =
     [Warning krr_backend_warning] \<and>
   fst (TruncatedKernelRidgeRegression_fit diagonal_externals
         (new_estimator TruncatedKernelRidgeRegression 2 (Some 1)) X2 Y2 ''gpu'') = Inr () \<and>
   emitted (snd (TruncatedKernelRidgeRegression_fit diagonal_externals
         (new_estimator TruncatedKernelRidgeRegression 2 (Some 1)) X2 Y2 ''gpu'')) =
     [Warning tkrr_backend_warning] \<and>
   PrincipalComponentRegression_fit diagonal_externals
         (new_estimator PrincipalComponentRegression 2 None) X2 Y2 ''gpu'' =
     (Inl (ValueError (unrecognized_backend_msg ''gpu'')),
      (new_estimator PrincipalComponentRegression 2 None)\<lparr>self_fit := Copied X2 Y2\<rparr>) \<and>
   ReducedRankRegression_fit diagonal_externals
         (new_estimator ReducedRankRegression 2 (Some 1)) X2 Y2 ''gpu'' =
     (Inl (ValueError (unrecognized_backend_msg ''gpu'')),
      (new_estimator ReducedRankRegression 2 (Some 1))\<lparr>self_fit := Copied X2 Y2\<rparr>) \<and>
   TruncatedKernelRidgeRegression_init 2 None = Inl (AssertionError numerical_value_msg)"
proof -
  let ?self = "\<lparr>be_backend = ''keops'', be_svd_solver = ''full'', be_iterated_power = 1,
          be_n_oversamples = 5, be_rank = 3\<rparr>"
  let ?gpu = "ValueError (unrecognized_backend_msg ''gpu'')"
  have c: "check_backend_solver_compatibility ?self \<noteq> Inr ()"
    by (simp add: check_backend_solver_compatibility_def)
  have cpu: "utils_parse_backend diagonal_externals ''cpu'' (shape0 X2) = Inr ''cpu''"
    and keops: "utils_parse_backend diagonal_externals ''keops'' (shape0 X2) = Inr ''keops''"
    and gpu: "utils_parse_backend diagonal_externals ''gpu'' (shape0 X2) = Inl ?gpu"
    by (simp_all add: diagonal_externals_def parse_backend_def)
  have u: "self_fit (new_estimator v n reg) = Unfitted"
    and e: "emitted (new_estimator v n reg) = []" for v n reg
    by (simp_all add: new_estimator_def)
  have krr: "KernelRidgeRegression_fit diagonal_externals
         (new_estimator KernelRidgeRegression 0 None) X2 Y2 ''gpu'' =
        (Inr (),
         (new_estimator KernelRidgeRegression 0 None)
           \<lparr>emitted := [Warning krr_backend_warning],
            self_fit := Kernels
             \<lparr>self_X = X2, self_Y = Y2, self_backend = ''cpu'',
              self_K_X = kernel diagonal_externals X2 None ''cpu'',
              self_K_Y = kernel diagonal_externals Y2 None ''cpu'',
              self_K_YX = kernel diagonal_externals Y2 (Some X2) ''cpu''\<rparr>\<rparr>)"
    using validation_as_written
      [where self = ?self and r = 3 and ext = diagonal_externals
        and s = "new_estimator KernelRidgeRegression 0 None" and X = X2 and Y = Y2
        and b = "''gpu''"] cpu e
    by simp
  have tkrr: "TruncatedKernelRidgeRegression_fit diagonal_externals
         (new_estimator TruncatedKernelRidgeRegression 2 (Some 1)) X2 Y2 ''gpu'' =
        (Inr (),
         (new_estimator TruncatedKernelRidgeRegression 2 (Some 1))
           \<lparr>emitted := [Warning tkrr_backend_warning],
            self_fit := Kernels
             \<lparr>self_X = X2, self_Y = Y2, self_backend = ''keops'',
              self_K_X = kernel diagonal_externals X2 None ''keops'',
              self_K_Y = kernel diagonal_externals Y2 None ''keops'',
              self_K_YX = kernel diagonal_externals Y2 (Some X2) ''keops''\<rparr>\<rparr>)"
    using validation_as_written
      [where self = ?self and r = 3 and ext = diagonal_externals
        and s = "new_estimator TruncatedKernelRidgeRegression 2 (Some 1)" and X = X2 and Y = Y2
        and b = "''gpu''"] keops e
    by simp
  have pcr: "fst (PrincipalComponentRegression_fit diagonal_externals
         (new_estimator PrincipalComponentRegression 2 None) X2 Y2 ''gpu'') = Inl ?gpu \<and>
       snd (PrincipalComponentRegression_fit diagonal_externals
         (new_estimator PrincipalComponentRegression 2 None) X2 Y2 ''gpu'') =
       (new_estimator PrincipalComponentRegression 2 None)\<lparr>self_fit := Copied X2 Y2\<rparr>"
    using validation_as_written
      [where self = ?self and r = 3 and ext = diagonal_externals
        and s = "new_estimator PrincipalComponentRegression 2 None" and X = X2 and Y = Y2
        and b = "''gpu''" and e = ?gpu] gpu u
    by blast
  have rrr: "fst (ReducedRankRegression_fit diagonal_externals
         (new_estimator ReducedRankRegression 2 (Some 1)) X2 Y2 ''gpu'') = Inl ?gpu \<and>
       snd (ReducedRankRegression_fit diagonal_externals
         (new_estimator ReducedRankRegression 2 (Some 1)) X2 Y2 ''gpu'') =
       (new_estimator ReducedRankRegression 2 (Some 1))\<lparr>self_fit := Copied X2 Y2\<rparr>"
    using validation_as_written
      [where self = ?self and r = 3 and ext = diagonal_externals
        and s = "new_estimator ReducedRankRegression 2 (Some 1)" and X = X2 and Y = Y2
        and b = "''gpu''" and e = ?gpu] gpu u
    by blast
  have chk: "\<exists>m. check_backend_solver_compatibility ?self = Inl (ValueError m)"
    using validation_as_written[where self = ?self] c by blast
  have init: "TruncatedKernelRidgeRegression_init 2 None = Inl (AssertionError numerical_value_msg)"
    using validation_as_written[where rank = 2] by blast
  show ?thesis
    using chk krr tkrr pcr rrr init by (simp add: prod_eq_iff)
qed

theorem fit_accepts_unrecognized_backend:
  "fst (KernelRidgeRegression_fit diagonal_externals
         (new_estimator KernelRidgeRegression 0 None) X2 Y2 ''gpu'') = Inr () \<and>
   check_backend_solver_compatibility
     \<lparr>be_backend = ''numpy'', be_svd_solver = ''arnoldi'', be_iterated_power = - 1,
      be_n_oversamples = - 5, be_rank = - 1\<rparr> = Inr ()"
  by (simp add: KernelRidgeRegression_fit_def init_kernels_def parse_backend_def Let_def
      check_backend_solver_compatibility_def diagonal_externals_def)

section \<open>Properties of fitting\<close>

lemma pcr_fit_keeps_rank:
  "self_rank (snd (PrincipalComponentRegression_fit ext s X Y b)) = self_rank s"
  by (auto simp: PrincipalComponentRegression_fit_def init_kernels_def Let_def
      split: sum.splits prod.splits fit_state.splits if_splits)

text \<open>
  C1, at the input where the code leaves the claim: a principal component estimator of
  requested rank 2 on two samples whose Gram matrix has the eigenvalues 1 and 0. The
  numerical rank 1 is detected, and \<^verbatim>\<open>fit\<close> raises the \<^verbatim>\<open>TypeError\<close> of its slice instead
  of storing one column and the rank 1: no factor is stored and the rank remains 2.
\<close>

theorem pcr_fit_raises_on_deficient_rank:
  "fst (PrincipalComponentRegression_fit diagonal_externals
         (new_estimator PrincipalComponentRegression 2 None) X_deficient X_deficient ''cpu'') =
     Inl (TypeError slice_bound_msg) \<and>
   self_rank (snd (PrincipalComponentRegression_fit diagonal_externals
         (new_estimator PrincipalComponentRegression 2 None) X_deficient X_deficient ''cpu'')) = 2 \<and>
   self_V (snd (PrincipalComponentRegression_fit diagonal_externals
         (new_estimator PrincipalComponentRegression 2 None) X_deficient X_deficient ''cpu'')) = None"
  by (simp add: PrincipalComponentRegression_fit_def init_kernels_def parse_backend_def
      new_estimator_def diagonal_externals_def linear_kernel_X_deficient diag_eigh_def
      diag_entries_def argsort_def py_take_def Let_def shape0_def split: prod.splits)

section \<open>Properties of the spectral decomposition\<close>















section \<open>Properties of modes and forecast\<close>





























section \<open>Properties of the array operations\<close>

lemma dot_Nil [simp]: "dot [] y = 0" "dot x [] = 0"
  by (simp_all add: dot_def)

lemma dot_Cons [simp]: "dot (a # x) (b # y) = a * b + dot x y"
  by (simp add: dot_def)

lemma dot_commute: "dot x y = dot y (x :: real list)"
proof (induction x arbitrary: y)
  case Nil
  then show ?case by simp
next
  case (Cons a x)
  then show ?case by (cases y) (simp_all add: mult.commute)
qed




lemma dot_sum_nth:
  assumes "length x = n" and "length y = n"
  shows "dot x y = (\<Sum>i<n. x ! i * (y ! i :: real))"
  using assms
proof (induction x arbitrary: y n)
  case Nil
  then show ?case by simp
next
  case (Cons a x)
  then obtain b y' where y: "y = b # y'" by (cases y) auto
  from Cons.prems y obtain m where n: "n = Suc m" and lx: "length x = m" and ly: "length y' = m"
    by auto
  have "dot (a # x) y = a * b + (\<Sum>i<m. x ! i * y' ! i)"
    using Cons.IH[OF lx ly] y by simp
  also have "\<dots> = (\<Sum>i<Suc m. (a # x) ! i * (b # y') ! i)"
    by (subst sum.lessThan_Suc_shift) simp
  finally show ?case using y n by simp
qed





text \<open>
  A square matrix of size \<open>n\<close>, and the identity \<open>x\<^sup>T (M x) = (x\<^sup>T M) x\<close> on it.
\<close>

lemma square_shape0: "square n M \<Longrightarrow> shape0 M = n"
  by (cases M) (auto simp: square_def shape0_def)


section \<open>Properties of the orthogonalisation step\<close>

lemma pivot_offset_zero: "pivot_offset nrm = 0"
  by (simp add: pivot_offset_def)

lemma swap_entries_same: "swap_entries xs k k = xs"
  by (simp add: swap_entries_def)

lemma residual_norms_head:
  assumes "k < length Q"
  shows "residual_norms M Q k ! 0 = weighted_sq M (Q ! k)"
  using assms by (simp add: residual_norms_def)

lemma qr_step_continues_iff:
  assumes "k < length (qr_Q st)"
  shows "fst (qr_step M vecs k st) \<longleftrightarrow> \<not> pivot M (qr_Q st) k < pivot_tol"
  using assms
  by (simp add: qr_step_def pivot_def pivot_offset_zero swap_entries_same residual_norms_head
      Let_def)

lemma qr_step_perm: "qr_perm (snd (qr_step M vecs k st)) = qr_perm st"
  by (simp add: qr_step_def pivot_offset_zero swap_entries_same Let_def)





lemma qr_step_continue_before:
  assumes "fst (qr_step M vecs k st)" and "j < k" and "k < length (qr_Q st)"
  shows "qr_Q (snd (qr_step M vecs k st)) ! j = qr_Q st ! j"
  using assms
  by (simp add: qr_step_def pivot_offset_zero swap_entries_same Let_def nth_append
      split: if_splits)

lemma qr_step_continue_pivot:
  assumes "fst (qr_step M vecs k st)" and "k < length (qr_Q st)"
  shows "qr_Q (snd (qr_step M vecs k st)) ! k =
           map (\<lambda>x. x / pivot M (qr_Q st) k) (qr_Q st ! k)"
  using assms
  by (simp add: qr_step_def pivot_def pivot_offset_zero swap_entries_same residual_norms_head
      Let_def nth_append split: if_splits)

lemma qr_step_continue_after:
  assumes "fst (qr_step M vecs k st)" and "length (qr_Q st) = vecs" and "k < j" and "j < vecs"
  shows "qr_Q (snd (qr_step M vecs k st)) ! j =
           (let q = map (\<lambda>x. x / pivot M (qr_Q st) k) (qr_Q st ! k)
            in vsub (qr_Q st ! j) (vscale (dot (matvec M q) (qr_Q st ! j)) q))"
proof -
  have k: "k < length (qr_Q st)" and kv: "int k < int vecs - 1"
    using assms by auto
  have d: "j - Suc k < length (qr_Q st) - Suc k" and e: "Suc k + (j - Suc k) = j"
    using assms by auto
  show ?thesis
    using assms(1) k kv d e assms(3)
    by (simp add: qr_step_def pivot_def pivot_offset_zero swap_entries_same residual_norms_head
        Let_def nth_append split: if_splits)
qed

section \<open>Properties of the orthogonalisation loop\<close>

lemma qr_loop_done: "\<not> k < vecs \<Longrightarrow> qr_loop M vecs k st = st"
  by (subst qr_loop.simps) simp

lemma qr_loop_continue:
  assumes "k < vecs" and "fst (qr_step M vecs k st)"
  shows "qr_loop M vecs k st = qr_loop M vecs (Suc k) (snd (qr_step M vecs k st))"
  using assms by (subst qr_loop.simps) (cases "qr_step M vecs k st", simp)

lemma qr_loop_break:
  assumes "k < vecs" and "\<not> fst (qr_step M vecs k st)"
  shows "qr_loop M vecs k st = snd (qr_step M vecs k st)"
  using assms by (subst qr_loop.simps) (cases "qr_step M vecs k st", simp)

lemma qr_loop_perm: "qr_perm (qr_loop M vecs k st) = qr_perm st"
proof (induction "vecs - k" arbitrary: k st)
  case 0
  then show ?case by (simp add: qr_loop_done)
next
  case (Suc n)
  then have k: "k < vecs" and n: "n = vecs - Suc k" by auto
  show ?case
  proof (cases "fst (qr_step M vecs k st)")
    case True
    then show ?thesis
      using Suc.hyps(1)[OF n] by (simp add: qr_loop_continue[OF k] qr_step_perm)
  next
    case False
    then show ?thesis by (simp add: qr_loop_break[OF k] qr_step_perm)
  qed
qed















lemma dot_unit_vec:
  assumes "length x = n" and "j < n"
  shows "dot x (unit_vec n j) = (x ! j :: real)"
proof -
  have "dot x (unit_vec n j) = (\<Sum>i<n. x ! i * unit_vec n j ! i)"
    by (rule dot_sum_nth) (simp_all add: assms unit_vec_def)
  also have "\<dots> = (\<Sum>i<n. if i = j then x ! j else 0)"
    by (rule sum.cong) (simp_all add: unit_vec_def)
  also have "\<dots> = x ! j"
    using assms(2) by simp
  finally show ?thesis .
qed




lemma norm1_returns: "A \<noteq> [] \<Longrightarrow> \<exists>e. norm1 A = Inr e"
  by (cases A) (simp_all add: norm1_def)

lemma qr_init_fields:
  "qr_Q (qr_init A) = A" "length (qr_R (qr_init A)) = length A"
  "qr_perm (qr_init A) = [0..<length A]" "qr_rank (qr_init A) = length A"
  by (simp_all add: qr_init_def shape1_def)


section \<open>Properties of modified\_QR\<close>

lemma sqrt_abs_one: "sqrt \<bar>1\<bar> = 1"
  by simp


lemma qr_step_A_scaled:
  "qr_step (eye 2) 2 0 (qr_init A_scaled) =
     (True, \<lparr>qr_Q = [[1, 0], [0, 2]], qr_R = [[1, 0], [0, 0]], qr_perm = [0, 1], qr_rank = 2\<rparr>)"
  by (simp add: qr_step_def qr_init_def A_scaled_def residual_norms_def weighted_sq_def
      pivot_offset_def swap_entries_def pivot_tol_def shape1_def Let_def array_defs vsub_def numeral_2_eq_2)

lemma residual_norms_A_scaled: "residual_norms (eye 2) A_scaled 0 = [1, 4]"
  by (simp add: A_scaled_def residual_norms_def weighted_sq_def array_defs numeral_2_eq_2)

lemma argmax_1_4: "argmax [1, 4] = 1"
  by (simp add: argmax_def)










text \<open>
  C3, as the code has it. The offset of the pivot is \<open>0\<close> whatever the weighted norms are:
  the argmax is computed and overwritten. The pivot of step \<open>k\<close> is column \<open>k\<close> itself,
  the swap changes nothing and the permutation is the one the loop started with. A step
  that does not stop divides column \<open>k\<close> by its pivot, leaves the columns before it, and
  subtracts from every later column its component along the new column \<open>k\<close>.
\<close>

theorem modified_QR_pivots_in_place:
  "pivot_offset nrm = 0 \<and>
   qr_perm (snd (qr_step M vecs k st)) = qr_perm st \<and>
   qr_perm (qr_loop M vecs k st) = qr_perm st \<and>
   (k < length (qr_Q st) \<longrightarrow>
      (fst (qr_step M vecs k st) \<longleftrightarrow> \<not> pivot M (qr_Q st) k < pivot_tol)) \<and>
   (fst (qr_step M vecs k st) \<and> length (qr_Q st) = vecs \<and> k < vecs \<longrightarrow>
      qr_Q (snd (qr_step M vecs k st)) ! k =
        map (\<lambda>x. x / pivot M (qr_Q st) k) (qr_Q st ! k) \<and>
      (\<forall>j. j < k \<longrightarrow> qr_Q (snd (qr_step M vecs k st)) ! j = qr_Q st ! j) \<and>
      (\<forall>j. k < j \<and> j < vecs \<longrightarrow>
         qr_Q (snd (qr_step M vecs k st)) ! j =
           vsub (qr_Q st ! j)
             (vscale (dot (matvec M (qr_Q (snd (qr_step M vecs k st)) ! k)) (qr_Q st ! j))
                (qr_Q (snd (qr_step M vecs k st)) ! k))))"
proof (intro conjI impI allI)
  show "pivot_offset nrm = 0" by (rule pivot_offset_zero)
  show "qr_perm (snd (qr_step M vecs k st)) = qr_perm st" by (rule qr_step_perm)
  show "qr_perm (qr_loop M vecs k st) = qr_perm st" by (rule qr_loop_perm)
next
  assume "k < length (qr_Q st)"
  then show "fst (qr_step M vecs k st) \<longleftrightarrow> \<not> pivot M (qr_Q st) k < pivot_tol"
    by (rule qr_step_continues_iff)
next
  assume a: "fst (qr_step M vecs k st) \<and> length (qr_Q st) = vecs \<and> k < vecs"
  then have c: "fst (qr_step M vecs k st)" and l: "length (qr_Q st) = vecs"
    and kl: "k < length (qr_Q st)" by simp_all
  show p: "qr_Q (snd (qr_step M vecs k st)) ! k =
        map (\<lambda>x. x / pivot M (qr_Q st) k) (qr_Q st ! k)"
    by (rule qr_step_continue_pivot[OF c kl])
  {
    fix j assume "j < k"
    then show "qr_Q (snd (qr_step M vecs k st)) ! j = qr_Q st ! j"
      by (rule qr_step_continue_before[OF c _ kl])
  }
  {
    fix j assume "k < j \<and> j < vecs"
    then show "qr_Q (snd (qr_step M vecs k st)) ! j =
           vsub (qr_Q st ! j)
             (vscale (dot (matvec M (qr_Q (snd (qr_step M vecs k st)) ! k)) (qr_Q st ! j))
                (qr_Q (snd (qr_step M vecs k st)) ! k))"
      using qr_step_continue_after[OF c l, of j] by (simp add: p Let_def)
  }
qed

theorem modified_QR_pivots_in_place_witness:
  "0 < length (qr_Q (qr_init A_scaled)) \<and>
   fst (qr_step (eye 2) 2 0 (qr_init A_scaled)) \<and>
   \<not> pivot (eye 2) (qr_Q (qr_init A_scaled)) 0 < pivot_tol \<and>
   length (qr_Q (qr_init A_scaled)) = 2 \<and>
   qr_Q (snd (qr_step (eye 2) 2 0 (qr_init A_scaled))) ! 0 =
     map (\<lambda>x. x / pivot (eye 2) (qr_Q (qr_init A_scaled)) 0) (qr_Q (qr_init A_scaled) ! 0) \<and>
   qr_perm (snd (qr_step (eye 2) 2 0 (qr_init A_scaled))) = [0, 1]"
proof -
  have l: "length (qr_Q (qr_init A_scaled)) = 2"
    by (simp add: qr_init_fields A_scaled_def)
  have c: "fst (qr_step (eye 2) 2 0 (qr_init A_scaled))"
    by (simp add: qr_step_A_scaled)
  show ?thesis
    using modified_QR_pivots_in_place[of "[]" "eye 2" 2 0 "qr_init A_scaled"] l c
    by (simp add: qr_init_fields A_scaled_def)
qed

theorem largest_column_not_selected:
  "residual_norms (eye 2) A_scaled 0 = [1, 4] \<and>
   argmax (residual_norms (eye 2) A_scaled 0) = 1 \<and>
   pivot_offset (residual_norms (eye 2) A_scaled 0) = 0 \<and>
   qr_perm (snd (qr_step (eye 2) 2 0 (qr_init A_scaled))) = [0, 1] \<and>
   qr_Q (snd (qr_step (eye 2) 2 0 (qr_init A_scaled))) ! 0 = [1, 0]"
  by (simp add: residual_norms_A_scaled argmax_1_4 pivot_offset_zero qr_step_A_scaled)

section \<open>Properties of the power iteration of rSVD\<close>

lemma vadd_Cons: "vadd (a # x) (b # y) = (a + b) # vadd x y"
  by (simp add: vadd_def)

lemma dot_vadd_left:
  "length a = length b \<Longrightarrow> dot (vadd a b) x = dot a x + dot b (x :: real list)"
proof (induction a b arbitrary: x rule: list_induct2)
  case Nil
  show ?case by (simp add: vadd_def)
next
  case (Cons p a q b)
  show ?case
  proof (cases x)
    case Nil
    then show ?thesis by simp
  next
    case (Cons r x')
    then show ?thesis
      using Cons.IH[of x'] by (simp add: vadd_Cons algebra_simps)
  qed
qed

lemma dot_vscale_left: "dot (vscale c a) x = c * dot a (x :: real list)"
proof (induction a arbitrary: x)
  case Nil
  show ?case by (simp add: vscale_def)
next
  case (Cons p a)
  show ?case
  proof (cases x)
    case Nil
    then show ?thesis by simp
  next
    case (Cons r x')
    then show ?thesis
      using Cons.IH[of x'] by (simp add: vscale_def algebra_simps)
  qed
qed

lemma map2_same: "map2 h (map f xs) (map g xs) = map (\<lambda>x. h (f x) (g x)) xs"
  by (induction xs) simp_all

lemma square_nth:
  assumes "square n A" and "j < n"
  shows "length (A ! j) = n"
  using assms by (simp add: square_def list_all_length)

lemma row_madd:
  assumes "square n A" and "square n B" and "i < n"
  shows "row (madd A B) i = vadd (row A i) (row B i :: real list)"
proof (rule nth_equalityI)
  have lA: "length A = n" and lB: "length B = n"
    using assms(1,2) by (simp_all add: square_def)
  show "length (row (madd A B) i) = length (vadd (row A i) (row B i))"
    by (simp add: row_def madd_def vadd_def)
  fix j assume "j < length (row (madd A B) i)"
  then have j: "j < n" by (simp add: row_def madd_def lA lB)
  have "vadd (A ! j) (B ! j) ! i = A ! j ! i + B ! j ! i"
    using square_nth[OF assms(1) j] square_nth[OF assms(2) j] assms(3)
    by (simp add: vadd_def)
  then show "row (madd A B) i ! j = vadd (row A i) (row B i) ! j"
    using j by (simp add: row_def madd_def vadd_def lA lB)
qed

lemma shape0_madd:
  assumes "square n A" and "square n B"
  shows "shape0 (madd A B) = n"
proof (cases n)
  case 0
  with assms show ?thesis by (simp add: square_def madd_def shape0_def)
next
  case (Suc m)
  with assms obtain a A' b B' where A: "A = a # A'" and B: "B = b # B'"
    by (cases A; cases B) (auto simp: square_def)
  with assms show ?thesis
    by (simp add: square_def madd_def shape0_def vadd_def)
qed

lemma matvec_madd:
  assumes "square n A" and "square n B"
  shows "matvec (madd A B) x = vadd (matvec A x) (matvec B (x :: real list))"
proof -
  have "matvec (madd A B) x = map (\<lambda>i. dot (row (madd A B) i) x) [0..<n]"
    by (simp add: matvec_def shape0_madd[OF assms])
  also have "\<dots> = map (\<lambda>i. dot (row A i) x + dot (row B i) x) [0..<n]"
  proof (rule map_cong[OF refl])
    fix i assume "i \<in> set [0..<n]"
    then have i: "i < n" by simp
    have "length (row A i) = length (row B i)"
      using assms by (simp add: row_def square_def)
    then show "dot (row (madd A B) i) x = dot (row A i) x + dot (row B i) x"
      by (simp add: row_madd[OF assms i] dot_vadd_left)
  qed
  also have "\<dots> = vadd (matvec A x) (matvec B x)"
    by (simp add: matvec_def vadd_def square_shape0[OF assms(1)] square_shape0[OF assms(2)]
        map2_same)
  finally show ?thesis .
qed

lemma square_scaled_eye: "square n (mscale c (eye n :: rmat))"
  by (simp add: square_def mscale_def eye_def vscale_def unit_vec_def list_all_iff)

lemma row_scaled_eye:
  assumes "i < n"
  shows "row (mscale c (eye n)) i = vscale c (unit_vec n i :: real list)"
  using assms by (simp add: row_def mscale_def eye_def vscale_def unit_vec_def)

lemma matvec_scaled_eye:
  assumes "length x = n"
  shows "matvec (mscale c (eye n)) x = vscale c (x :: real list)"
proof -
  have "matvec (mscale c (eye n)) x = map (\<lambda>i. dot (row (mscale c (eye n)) i) x) [0..<n]"
    by (simp add: matvec_def square_shape0[OF square_scaled_eye])
  also have "\<dots> = map (\<lambda>i. c * x ! i) [0..<n]"
  proof (rule map_cong[OF refl])
    fix i assume "i \<in> set [0..<n]"
    then have i: "i < n" by simp
    show "dot (row (mscale c (eye n)) i) x = c * x ! i"
      using dot_unit_vec[OF assms i]
      by (simp add: row_scaled_eye[OF i] dot_vscale_left dot_commute[of "unit_vec n i" x])
  qed
  also have "\<dots> = map (\<lambda>a. c * a) (map (\<lambda>i. x ! i) [0..<length x])"
    by (simp add: assms)
  also have "\<dots> = vscale c x"
    by (simp only: map_nth vscale_def)
  finally show ?thesis .
qed

lemma matvec_regularised:
  assumes "square n Kx" and "length c = n"
  shows "matvec (regularised Kx n reg) c = vadd (matvec Kx c) (vscale (real n * reg) c)"
  by (simp add: regularised_def matvec_madd[OF assms(1) square_scaled_eye]
      matvec_scaled_eye[OF assms(2)])

lemma vsub_vadd_cancel: "length a = length b \<Longrightarrow> vsub (vadd a b) b = (a :: real list)"
  by (induction a b rule: list_induct2) (simp_all add: vsub_def vadd_def)

lemma solution_round:
  assumes "square n Kx" and "list_all (\<lambda>c. length c = n) z"
    and "matmul (regularised Kx n reg) z = KyO"
  shows "msub KyO (mscale (real n * reg) z) = matmul Kx z"
proof -
  have "msub (matmul (regularised Kx n reg) z) (mscale (real n * reg) z) =
          map (\<lambda>c. vsub (matvec (regularised Kx n reg) c) (vscale (real n * reg) c)) z"
    by (simp add: msub_def matmul_def mscale_def map2_same)
  also have "\<dots> = map (matvec Kx) z"
  proof (rule map_cong[OF refl])
    fix c assume "c \<in> set z"
    then have c: "length c = n" using assms(2) by (simp add: list_all_iff)
    have "length (matvec Kx c) = length (vscale (real n * reg) c)"
      by (simp add: matvec_def vscale_def square_shape0[OF assms(1)] c)
    then show "vsub (matvec (regularised Kx n reg) c) (vscale (real n * reg) c) = matvec Kx c"
      by (simp add: matvec_regularised[OF assms(1) c] vsub_vadd_cancel)
  qed
  finally show ?thesis using assms(3) by (simp add: matmul_def)
qed

lemma power_round_returns:
  assumes "la_solve la (regularised Kx n reg) (matmul Ky Omega) = Inr z"
  shows "power_round la Kx Ky reg n Omega =
           Inr (msub (matmul Ky Omega) (mscale (real n * reg) z))"
  using assms by (simp add: power_round_def Let_def)

lemma power_round_raises:
  assumes "la_solve la (regularised Kx n reg) (matmul Ky Omega) = Inl e"
  shows "power_round la Kx Ky reg n Omega = Inl e"
  using assms by (simp add: power_round_def Let_def)

lemma power_round_solution:
  assumes "la_solve la (regularised Kx n reg) (matmul Ky Omega) = Inr z"
    and "square n Kx" and "list_all (\<lambda>c. length c = n) z"
    and "matmul (regularised Kx n reg) z = matmul Ky Omega"
  shows "power_round la Kx Ky reg n Omega = Inr (matmul Kx z)"
  by (simp add: power_round_returns[OF assms(1)] solution_round[OF assms(2,3,4)])

lemma sketch_unfold:
  assumes "0 \<le> l"
  shows "sketch la Kx Ky reg n l powers =
           bind_err (power_rounds la Kx Ky reg n (nat powers)
                       (normalise_columns (la_randn la n (nat l))))
             (\<lambda>Omega. la_solve la (regularised Kx n reg) (matmul Ky Omega))"
  using assms by (simp add: sketch_def bind_err_def Let_def split: sum.splits)

section \<open>Properties of the rSVD examples\<close>

lemma sqrt_25: "sqrt 25 = 5"
  by (rule real_sqrt_unique) simp_all

lemma sqrt_144: "sqrt 144 = 12"
  by (rule real_sqrt_unique) simp_all

lemma shape0_Kx2: "shape0 Kx2 = 2"
  by (simp add: Kx2_def shape0_def)

lemma regularised_Kx2: "regularised Kx2 2 0 = [[1, 0], [0, 1]]"
  by (simp add: regularised_def Kx2_def array_defs numeral_2_eq_2)

lemma draw_example: "normalise_columns (la_randn diagonal_linalg 2 (Suc 0)) = [[3 / 5, 4 / 5]]"
  by (simp add: diagonal_linalg_def normalise_columns_def array_defs numeral_2_eq_2 sqrt_25)

lemma sketch_example: "sketch diagonal_linalg Kx2 Ky2 0 2 1 0 = Inr [[12, 12]]"
proof -
  have "matmul Ky2 [[3 / 5, 4 / 5]] = [[12, 12]]"
    by (simp add: Ky2_def array_defs numeral_2_eq_2)
  moreover have "la_solve diagonal_linalg [[1, 0], [0, 1]] [[12, 12]] = Inr [[12, 12]]"
    by (simp add: diagonal_linalg_def diag_entries_def numeral_2_eq_2)
  ultimately show ?thesis
    by (simp add: sketch_def draw_example regularised_Kx2 Let_def)
qed

lemma metric_example:
  "madd (mdiv (matmul Kx2 Kx2) (real 2)) (mscale 0 Kx2) = [[1 / 2, 0], [0, 1 / 2]]"
  by (simp add: Kx2_def mdiv_def array_defs numeral_2_eq_2)

lemma qr_step_example:
  "qr_step [[1 / 2, 0], [0, 1 / 2]] (Suc 0) 0 (qr_init [[12, 12]]) =
     (True, \<lparr>qr_Q = [[1, 1]], qr_R = [[12]], qr_perm = [0], qr_rank = 1\<rparr>)"
  by (simp add: qr_step_def qr_init_def residual_norms_def weighted_sq_def pivot_offset_def
      swap_entries_def pivot_tol_def shape1_def Let_def array_defs numeral_2_eq_2 sqrt_144)

lemma qr_loop_example:
  "qr_loop [[1 / 2, 0], [0, 1 / 2]] (Suc 0) 0 (qr_init [[12, 12]]) =
     \<lparr>qr_Q = [[1, 1]], qr_R = [[12]], qr_perm = [0], qr_rank = 1\<rparr>"
proof -
  have "qr_loop [[1 / 2, 0], [0, 1 / 2]] (Suc 0) 0 (qr_init [[12, 12]]) =
        qr_loop [[1 / 2, 0], [0, 1 / 2]] (Suc 0) (Suc 0)
          (snd (qr_step [[1 / 2, 0], [0, 1 / 2]] (Suc 0) 0 (qr_init [[12, 12]])))"
    by (rule qr_loop_continue) (simp_all add: qr_step_example)
  also have "\<dots> = snd (qr_step [[1 / 2, 0], [0, 1 / 2]] (Suc 0) 0 (qr_init [[12, 12]]))"
    by (rule qr_loop_done) simp
  finally show ?thesis by (simp add: qr_step_example)
qed

lemma qr_example:
  "modified_QR [[12, 12]] ''cpu'' (Some [[1 / 2, 0], [0, 1 / 2]]) =
     Inr ([[1, 1]], [OrthogonalityError 0])"
  by (simp add: modified_QR_def parse_backend_def metric_of_def shape1_def shape0_def Let_def
      qr_loop_example norm1_def msub_def vsub_def diag_of_def diag_entries_def take_cols_def
      vscale_def unit_vec_def)

lemma eigh_example: "la_eigh diagonal_linalg [[35]] = ([35], [[1]])"
  by (simp add: diagonal_linalg_def diag_entries_def argsort_def take_cols_def eye_def
      unit_vec_def Let_def)

lemma gram_example:
  "matmul (matmul (transpose_m [[1, 1]]) Ky2) [[1, 1]] = [[35]]"
  by (simp add: Ky2_def array_defs numeral_2_eq_2)

lemma factors_example:
  "rSVD_factors diagonal_linalg Kx2 Ky2 0 (Some 1) 0 0 =
     Inr (([[1, 1]], [[1, 1]], [35 / 4]), [OrthogonalityError 0, PrintedValues [35 / 4]])"
proof -
  have U: "matmul [[1, 1]] [[1 :: real]] = [[1, 1]]"
    by (simp add: array_defs numeral_2_eq_2)
  have V: "matmul Kx2 [[1, 1]] = [[1, 1]]"
    by (simp add: Kx2_def array_defs numeral_2_eq_2)
  show ?thesis
    using metric_example
    by (simp add: rSVD_factors_def shape0_Kx2 sketch_example qr_example gram_example
        eigh_example py_take_def shape1_def U V Let_def)
qed

lemma residual_example: "gep_residual Kx2 Ky2 0 2 [[1, 1]] [[1, 1]] [35 / 4] = Inr (5 / 2)"
  by (simp add: gep_residual_def Kx2_def Ky2_def mdiv_def norm1_def msub_def vsub_def array_defs
      numeral_2_eq_2)

lemma round_example:
  "regularised [[2]] (Suc 0) 1 = [[3]]" "matmul [[1]] [[1 :: real]] = [[1]]"
  "la_solve diagonal_linalg [[3]] [[1]] = Inr [[1 / 3]]"
  "matmul [[3]] [[1 / 3 :: real]] = [[1]]" "matmul [[2]] [[1 / 3 :: real]] = [[2 / 3]]"
  by (simp_all add: regularised_def diagonal_linalg_def array_defs)

section \<open>Properties of rSVD\<close>

lemma modified_QR_prints:
  assumes "modified_QR A backend M = Inr (Q, out)"
  shows "\<exists>e. out = [OrthogonalityError e]"
  using assms by (auto simp: modified_QR_def Let_def split: sum.splits)

lemma rSVD_factors_prints:
  assumes "rSVD_factors la Kx Ky reg rank powers offset = Inr (f, out)"
  shows "GEPError e \<notin> set out"
  using assms
  by (auto simp: rSVD_factors_def Let_def
      split: option.splits sum.splits prod.splits if_splits dest!: modified_QR_prints)

lemma gep_residual_returns:
  assumes "V \<noteq> []" and "svals2 \<noteq> []"
  shows "\<exists>err. gep_residual Kx Ky reg n U V svals2 = Inr err"
proof -
  have "msub (mdiv (matmul Ky V) (real n))
             (matmul (madd V (mscale (real n * reg) U)) (diag_of svals2)) \<noteq> []"
    using assms by (simp add: msub_def mdiv_def matmul_def diag_of_def)
  then show ?thesis
    unfolding gep_residual_def by (rule norm1_returns)
qed

lemma rSVD_returns:
  assumes "rSVD_factors la Kx Ky reg rank powers offset = Inr ((U, V, svals2), out)"
    and "gep_residual Kx Ky reg (shape0 Kx) U V svals2 = Inr err"
  shows "rSVD la Kx Ky reg rank powers offset =
           Inr ((U, V, svals2), if err > gep_tol then out @ [GEPError err] else out)"
  using assms by (simp add: rSVD_def)

lemma rSVD_returned:
  assumes "rSVD la Kx Ky reg rank powers offset = Inr ((U, V, svals2), out')"
  shows "\<exists>out err. rSVD_factors la Kx Ky reg rank powers offset = Inr ((U, V, svals2), out) \<and>
           gep_residual Kx Ky reg (shape0 Kx) U V svals2 = Inr err \<and>
           (GEPError err \<in> set out' \<longleftrightarrow> err > gep_tol)"
proof -
  from assms obtain out err where
    f: "rSVD_factors la Kx Ky reg rank powers offset = Inr ((U, V, svals2), out)" and
    r: "gep_residual Kx Ky reg (shape0 Kx) U V svals2 = Inr err" and
    o: "out' = (if err > gep_tol then out @ [GEPError err] else out)"
    by (auto simp: rSVD_def split: sum.splits prod.splits)
  have "GEPError err \<notin> set out"
    by (rule rSVD_factors_prints[OF f])
  with f r o show ?thesis by auto
qed

text \<open>
  C7. The residual is the 1-norm of \<open>Ky V / n - (V + n reg U) diag(svals2)\<close>. Once \<^verbatim>\<open>rSVD\<close>
  has computed \<open>U\<close>, \<open>V\<close> and the eigenvalues, and the norm has a value (it has one whenever
  there is at least one column), \<^verbatim>\<open>rSVD\<close> returns the three: when the residual exceeds
  \<open>10\<^sup>-\<^sup>6\<close> its value is printed after everything else, and otherwise nothing more is
  printed. Conversely, whenever \<^verbatim>\<open>rSVD\<close> returns, the residual was printed exactly when it
  exceeded \<open>10\<^sup>-\<^sup>6\<close>.
\<close>

theorem rSVD_reports_residual:
  "(rSVD_factors la Kx Ky reg rank powers offset = Inr ((U, V, svals2), out) \<and>
    gep_residual Kx Ky reg (shape0 Kx) U V svals2 = Inr err \<longrightarrow>
      (err > gep_tol \<longrightarrow>
         rSVD la Kx Ky reg rank powers offset = Inr ((U, V, svals2), out @ [GEPError err])) \<and>
      (\<not> err > gep_tol \<longrightarrow>
         rSVD la Kx Ky reg rank powers offset = Inr ((U, V, svals2), out)) \<and>
      (\<forall>e. GEPError e \<notin> set out)) \<and>
   (V \<noteq> [] \<and> svals2 \<noteq> [] \<longrightarrow> (\<exists>err. gep_residual Kx Ky reg n U V svals2 = Inr err)) \<and>
   (rSVD la Kx Ky reg rank powers offset = Inr ((U, V, svals2), out') \<longrightarrow>
      (\<exists>out err. rSVD_factors la Kx Ky reg rank powers offset = Inr ((U, V, svals2), out) \<and>
           gep_residual Kx Ky reg (shape0 Kx) U V svals2 = Inr err \<and>
           (GEPError err \<in> set out' \<longleftrightarrow> err > gep_tol))) \<and>
   gep_residual Kx Ky reg n U V svals2 =
     norm1 (msub (mdiv (matmul Ky V) (real n))
                 (matmul (madd V (mscale (real n * reg) U)) (diag_of svals2)))"
proof (intro conjI impI allI)
  assume a: "rSVD_factors la Kx Ky reg rank powers offset = Inr ((U, V, svals2), out) \<and>
    gep_residual Kx Ky reg (shape0 Kx) U V svals2 = Inr err"
  then have f: "rSVD_factors la Kx Ky reg rank powers offset = Inr ((U, V, svals2), out)"
    and r: "gep_residual Kx Ky reg (shape0 Kx) U V svals2 = Inr err" by simp_all
  {
    assume "err > gep_tol"
    then show "rSVD la Kx Ky reg rank powers offset = Inr ((U, V, svals2), out @ [GEPError err])"
      using rSVD_returns[OF f r] by simp
  }
  {
    assume "\<not> err > gep_tol"
    then show "rSVD la Kx Ky reg rank powers offset = Inr ((U, V, svals2), out)"
      using rSVD_returns[OF f r] by simp
  }
  fix e
  show "GEPError e \<notin> set out"
    by (rule rSVD_factors_prints[OF f])
next
  assume "V \<noteq> [] \<and> svals2 \<noteq> []"
  then show "\<exists>err. gep_residual Kx Ky reg n U V svals2 = Inr err"
    using gep_residual_returns by blast
next
  assume "rSVD la Kx Ky reg rank powers offset = Inr ((U, V, svals2), out')"
  then show "\<exists>out err. rSVD_factors la Kx Ky reg rank powers offset = Inr ((U, V, svals2), out) \<and>
           gep_residual Kx Ky reg (shape0 Kx) U V svals2 = Inr err \<and>
           (GEPError err \<in> set out' \<longleftrightarrow> err > gep_tol)"
    by (rule rSVD_returned)
next
  show "gep_residual Kx Ky reg n U V svals2 =
     norm1 (msub (mdiv (matmul Ky V) (real n))
                 (matmul (madd V (mscale (real n * reg) U)) (diag_of svals2)))"
    by (simp add: gep_residual_def)
qed

theorem rSVD_reports_residual_witness:
  "rSVD_factors diagonal_linalg Kx2 Ky2 0 (Some 1) 0 0 =
     Inr (([[1, 1]], [[1, 1]], [35 / 4]), [OrthogonalityError 0, PrintedValues [35 / 4]]) \<and>
   gep_residual Kx2 Ky2 0 (shape0 Kx2) [[1, 1]] [[1, 1]] [35 / 4] = Inr (5 / 2) \<and>
   (5 / 2 :: real) > gep_tol \<and>
   rSVD diagonal_linalg Kx2 Ky2 0 (Some 1) 0 0 =
     Inr (([[1, 1]], [[1, 1]], [35 / 4]),
          [OrthogonalityError 0, PrintedValues [35 / 4], GEPError (5 / 2)])"
proof -
  have r: "gep_residual Kx2 Ky2 0 (shape0 Kx2) [[1, 1]] [[1, 1]] [35 / 4] = Inr (5 / 2)"
    by (simp add: shape0_Kx2 residual_example)
  have t: "(5 / 2 :: real) > gep_tol"
    by (simp add: gep_tol_def)
  have "rSVD diagonal_linalg Kx2 Ky2 0 (Some 1) 0 0 =
          Inr (([[1, 1]], [[1, 1]], [35 / 4]),
               [OrthogonalityError 0, PrintedValues [35 / 4]] @ [GEPError (5 / 2)])"
    using rSVD_reports_residual
      [where la = diagonal_linalg and Kx = Kx2 and Ky = Ky2 and reg = 0 and rank = "Some 1"
         and powers = 0 and offset = 0 and U = "[[1, 1]]" and V = "[[1, 1]]"
         and ?svals2.0 = "[35 / 4]"
         and out = "[OrthogonalityError 0, PrintedValues [35 / 4]]" and err = "5 / 2"]
      factors_example r t
    by blast
  with factors_example r t show ?thesis by simp
qed

lemma power_rounds_Suc:
  "power_rounds la Kx Ky reg n (Suc j) Omega =
     bind_err (power_round la Kx Ky reg n Omega) (power_rounds la Kx Ky reg n j)"
  by (simp add: bind_err_def split: sum.splits)

text \<open>
  C8, as the code has it. A round of the power iteration solves the regularised system
  \<open>(Kx + n reg I) z = Ky \<Omega>\<close> and replaces the sketch by \<open>Ky \<Omega> - n reg z\<close>, not by \<open>z\<close>;
  when \<open>z\<close> is a solution of the system, with as many rows as \<open>Kx\<close>, the new sketch is
  \<open>Kx z\<close>. A round raises what the solver raises. The loop makes \<^verbatim>\<open>powers\<close> rounds, one
  after the other. Only after the loop is the sketch replaced by a solution itself: by
  what the solver returns for \<open>Ky\<close> times the sketch that the loop has left.
\<close>

theorem power_round_as_written:
  "(la_solve la (regularised Kx n reg) (matmul Ky Omega) = Inr z \<longrightarrow>
      power_round la Kx Ky reg n Omega =
        Inr (msub (matmul Ky Omega) (mscale (real n * reg) z))) \<and>
   (la_solve la (regularised Kx n reg) (matmul Ky Omega) = Inr z \<and> square n Kx \<and>
    list_all (\<lambda>c. length c = n) z \<and>
    matmul (regularised Kx n reg) z = matmul Ky Omega \<longrightarrow>
      power_round la Kx Ky reg n Omega = Inr (matmul Kx z)) \<and>
   (la_solve la (regularised Kx n reg) (matmul Ky Omega) = Inl e \<longrightarrow>
      power_round la Kx Ky reg n Omega = Inl e) \<and>
   power_rounds la Kx Ky reg n 0 Omega = Inr Omega \<and>
   power_rounds la Kx Ky reg n (Suc j) Omega =
     bind_err (power_round la Kx Ky reg n Omega) (power_rounds la Kx Ky reg n j) \<and>
   (0 \<le> l \<longrightarrow>
      sketch la Kx Ky reg n l powers =
        bind_err (power_rounds la Kx Ky reg n (nat powers)
                    (normalise_columns (la_randn la n (nat l))))
          (\<lambda>Omega. la_solve la (regularised Kx n reg) (matmul Ky Omega)))"
proof (intro conjI impI)
  assume "la_solve la (regularised Kx n reg) (matmul Ky Omega) = Inr z"
  then show "power_round la Kx Ky reg n Omega =
        Inr (msub (matmul Ky Omega) (mscale (real n * reg) z))"
    by (rule power_round_returns)
next
  assume "la_solve la (regularised Kx n reg) (matmul Ky Omega) = Inr z \<and> square n Kx \<and>
    list_all (\<lambda>c. length c = n) z \<and>
    matmul (regularised Kx n reg) z = matmul Ky Omega"
  then show "power_round la Kx Ky reg n Omega = Inr (matmul Kx z)"
    using power_round_solution by blast
next
  assume "la_solve la (regularised Kx n reg) (matmul Ky Omega) = Inl e"
  then show "power_round la Kx Ky reg n Omega = Inl e"
    by (rule power_round_raises)
next
  show "power_rounds la Kx Ky reg n 0 Omega = Inr Omega"
    by simp
  show "power_rounds la Kx Ky reg n (Suc j) Omega =
     bind_err (power_round la Kx Ky reg n Omega) (power_rounds la Kx Ky reg n j)"
    by (rule power_rounds_Suc)
next
  assume "0 \<le> l"
  then show "sketch la Kx Ky reg n l powers =
        bind_err (power_rounds la Kx Ky reg n (nat powers)
                    (normalise_columns (la_randn la n (nat l))))
          (\<lambda>Omega. la_solve la (regularised Kx n reg) (matmul Ky Omega))"
    by (rule sketch_unfold)
qed

theorem power_round_as_written_witness:
  "la_solve diagonal_linalg (regularised [[2]] 1 1) (matmul [[1]] [[1]]) = Inr [[1 / 3]] \<and>
   square 1 [[2]] \<and>
   matmul (regularised [[2]] 1 1) [[1 / 3]] = matmul [[1]] [[1]] \<and>
   power_round diagonal_linalg [[2]] [[1]] 1 1 [[1]] = Inr (matmul [[2]] [[1 / 3]]) \<and>
   power_round diagonal_linalg [[2]] [[1]] 1 1 [[1]] = Inr [[2 / 3]] \<and>
   power_rounds diagonal_linalg [[2]] [[1]] 1 1 (Suc 0) [[1]] = Inr [[2 / 3]]"
proof -
  have s: "la_solve diagonal_linalg (regularised [[2]] 1 1) (matmul [[1]] [[1]]) = Inr [[1 / 3]]"
    by (simp add: round_example)
  have q: "square 1 [[2]]" "list_all (\<lambda>c. length c = 1) [[1 / 3 :: real]]"
    by (simp_all add: square_def)
  have m: "matmul (regularised [[2]] 1 1) [[1 / 3]] = matmul [[1]] [[1]]"
    by (simp add: round_example)
  have p: "power_round diagonal_linalg [[2]] [[1]] 1 1 [[1]] = Inr (matmul [[2]] [[1 / 3]])"
    using power_round_as_written
      [where la = diagonal_linalg and Kx = "[[2]]" and Ky = "[[1]]" and reg = 1 and n = 1
         and Omega = "[[1]]" and z = "[[1 / 3]]"]
      s q m
    by blast
  have "power_rounds diagonal_linalg [[2]] [[1]] 1 1 (Suc 0) [[1]] =
          bind_err (power_round diagonal_linalg [[2]] [[1]] 1 1 [[1]])
            (power_rounds diagonal_linalg [[2]] [[1]] 1 1 0)"
    using power_round_as_written
      [where la = diagonal_linalg and Kx = "[[2]]" and Ky = "[[1]]" and reg = 1 and n = 1
         and Omega = "[[1]]" and j = 0]
    by blast
  then have r: "power_rounds diagonal_linalg [[2]] [[1]] 1 1 (Suc 0) [[1]] = Inr [[2 / 3]]"
    unfolding p by (simp add: bind_err_def round_example)
  from s q m p r show ?thesis by (simp add: round_example)
qed

theorem power_round_is_not_the_solution:
  "la_solve diagonal_linalg (regularised [[2]] 1 1) (matmul [[1]] [[1]]) = Inr [[1 / 3]] \<and>
   matmul (regularised [[2]] 1 1) [[1 / 3]] = matmul [[1]] [[1]] \<and>
   power_round diagonal_linalg [[2]] [[1]] 1 1 [[1]] = Inr [[2 / 3]] \<and>
   power_round diagonal_linalg [[2]] [[1]] 1 1 [[1]] \<noteq> Inr [[1 / 3]]"
  by (simp add: power_round_def round_example msub_def vsub_def mscale_def vscale_def Let_def)

end
